theory Spec2Isabelle
  imports Main "HOL-Library.Word"
begin

section \<open>Data model of the PBFT seal engine (libpbftseal/PBFT.cpp)\<close>

text \<open>
  Fixed-width values of the source: \<open>u256\<close> is an unsigned 256-bit integer whose
  arithmetic wraps, \<open>h256\<close>/\<open>h512\<close> are fixed hashes (block hashes, node public keys),
  a \<open>Signature\<close> is a 520-bit value, \<open>uint64_t\<close>/\<open>size_t\<close> are 64-bit and
  \<open>unsigned\<close> is 32-bit.
\<close>

type_synonym u256 = "256 word"
type_synonym h256 = "256 word"
type_synonym h512 = "512 word"
type_synonym Signature = "520 word"
type_synonym uint64 = "64 word"
type_synonym unsigned = "32 word"
type_synonym bytes = "8 word list"

text \<open>
  The fields every PBFT message carries (\<open>PBFTMsg\<close>); a \<open>PrepareReq\<close> adds the
  serialised block. \<open>SignReq\<close>, \<open>CommitReq\<close> and \<open>ViewChangeReq\<close> carry the common
  fields only.
\<close>

record PBFTMsg =
  height :: u256
  view :: u256
  idx :: u256
  timestamp :: u256
  block_hash :: h256
  sig :: Signature
  sig2 :: Signature

record PrepareReq = PBFTMsg +
  block :: bytes

type_synonym SignReq = PBFTMsg
type_synonym CommitReq = PBFTMsg
type_synonym ViewChangeReq = PBFTMsg

text \<open>
  The part of a \<open>BlockHeader\<close> the engine reads: \<open>number()\<close>, \<open>hash(WithoutSeal)\<close>,
  \<open>nodeList()\<close>, and \<open>operator bool\<close> (used by \<open>collectGarbage\<close>).
\<close>

record BlockHeader =
  number :: u256
  hashWithoutSeal :: h256
  nodeList :: "h512 list"
  header_valid :: bool

text \<open>The fields of a roster entry (\<open>NodeConnParams\<close>) that \<open>getMinerList\<close> reads.\<close>

record NodeConnParams =
  sNodeId :: string
  iIdentityType :: int
  iIdx :: u256

text \<open>
  What \<open>handlePrepareMsg\<close> learns from executing a proposal with
  \<open>m_bc->checkBlockValid\<close> and re-sealing it: the header hash right after execution,
  the number of pending transactions, and, when \<open>sealBlock\<close> succeeds, the header
  hash after \<open>commitToSeal\<close> together with the regenerated block bytes.
\<close>

record ExecResult =
  exec_hash :: h256
  pending_size :: nat
  resealed :: "(h256 \<times> bytes) option"

text \<open>
  The collaborators of the engine and the constants declared outside the four source
  files, taken as parameters: the roster (\<open>NodeConnManagerSingleton\<close>), the key pair
  and the signature primitives, the host, the chain and executor, the clock, the library
  conversions of a \<open>u256\<close> to \<open>int\<close> and \<open>unsigned\<close>, the constants \<open>Invalid256\<close>,
  \<open>EN_ACCOUNT_TYPE_MINER\<close> and \<open>kMaxChangeCycle\<close>, the value of a default-constructed
  (equivalently, cleared) \<open>PrepareReq\<close>, the floating-point timeout interval
  \<open>m_view_timeout * pow(1.5, m_change_cycle)\<close>, and the order in which the iterator
  of the container \<open>m_recv_view_change_req\<close> (declared in the header, outside the
  source files) hands out the views it holds: \<open>view_iteration\<close> maps the views in
  the order they were entered to the order of the iteration, a permutation of them
  (ascending for a \<open>std::map\<close>).
\<close>

record Env =
  Invalid256 :: u256
  EN_ACCOUNT_TYPE_MINER :: int
  kMaxChangeCycle :: unsigned
  emptyPrepareReq :: PrepareReq
  u256_to_int :: "u256 \<Rightarrow> int"
  u256_to_unsigned :: "u256 \<Rightarrow> unsigned"
  getAccountType :: "h512 \<Rightarrow> int option"
  getMinerNum :: u256
  getIdx :: "h512 \<Rightarrow> u256 option"
  getPublicKey :: "u256 \<Rightarrow> h512 option"
  getAllNodeConnInfo :: "int \<Rightarrow> NodeConnParams list"
  jsToPublic :: "string \<Rightarrow> h512"
  self_pub :: h512
  signHash :: "h256 \<Rightarrow> Signature"
  verify :: "h512 \<Rightarrow> Signature \<Rightarrow> h256 \<Rightarrow> bool"
  fieldsWithoutBlock :: "PBFTMsg \<Rightarrow> h256"
  host_alive :: bool
  isConnected :: "h512 \<Rightarrow> bool"
  checkBlockValid :: "h256 \<Rightarrow> bytes \<Rightarrow> ExecResult option"
  chain_has_block :: "h256 \<Rightarrow> bool"
  timeout_interval :: "unsigned \<Rightarrow> unsigned \<Rightarrow> uint64"
  utcTime :: uint64
  clock_seconds :: int
  view_iteration :: "u256 list \<Rightarrow> u256 list"

section \<open>Block-signature verifier\<close>

text \<open>
  \<open>std::vector::resize\<close> on a vector of fixed hashes: keeps the first \<open>n\<close> elements
  and pads with zero hashes.
\<close>

definition resize :: "nat \<Rightarrow> h512 list \<Rightarrow> h512 list" where
  "resize n xs = take n xs @ replicate (n - length xs) 0"

text \<open>
  The second loop of \<open>getMinerList\<close>: every miner entry writes its public key at its
  index; an index outside the list makes the function return false at once, leaving the
  list as written so far.
\<close>

fun getMinerList_fill :: "Env \<Rightarrow> nat \<Rightarrow> NodeConnParams list \<Rightarrow> h512 list \<Rightarrow> bool \<times> h512 list" where
  "getMinerList_fill env miner_num [] miner_list = (True, miner_list)"
| "getMinerList_fill env miner_num (p # ps) miner_list =
     (if iIdentityType p = EN_ACCOUNT_TYPE_MINER env then
        (let i = unat (u256_to_unsigned env (iIdx p)) in
         if i \<ge> miner_num then (False, miner_list)
         else getMinerList_fill env miner_num ps (miner_list[i := jsToPublic env (sNodeId p)]))
      else getMinerList_fill env miner_num ps miner_list)"

text \<open>
  \<open>getMinerList(_blk_no, _miner_list)\<close>: the result flag and the list it leaves in
  its out-parameter. The miner counter is an \<open>unsigned\<close>.
\<close>

definition getMinerList :: "Env \<Rightarrow> int \<Rightarrow> h512 list \<Rightarrow> bool \<times> h512 list" where
  "getMinerList env blk_no miner_list =
     (let all_node = getAllNodeConnInfo env blk_no;
          miner_num = length (filter (\<lambda>p. iIdentityType p = EN_ACCOUNT_TYPE_MINER env) all_node) mod 2 ^ 32
      in getMinerList_fill env miner_num all_node (resize miner_num miner_list))"

text \<open>A container size as the \<open>size_t\<close> the source compares.\<close>

definition size_t :: "nat \<Rightarrow> uint64" where
  "size_t n = of_nat n"

text \<open>
  The signature-count test of \<open>checkBlockSign\<close>, in \<open>size_t\<close> arithmetic:
  the block is rejected when
  \<open>_sign_list.size() < miner_list.size() - (miner_list.size() - 1) / 3\<close>.
\<close>

definition enough_signs :: "(u256 \<times> Signature) list \<Rightarrow> h512 list \<Rightarrow> bool" where
  "enough_signs sign_list miner_list =
     (\<not> size_t (length sign_list) < size_t (length miner_list) - (size_t (length miner_list) - 1) div 3)"

text \<open>
  The verification loop of \<open>checkBlockSign\<close>: the first entry whose index is out of
  bounds or whose signature does not verify over the header's hash without seal ends
  the loop with false.
\<close>

fun check_signatures :: "Env \<Rightarrow> h512 list \<Rightarrow> h256 \<Rightarrow> (u256 \<times> Signature) list \<Rightarrow> bool" where
  "check_signatures env miner_list h [] = True"
| "check_signatures env miner_list h (item # items) =
     (if unat (fst item) \<ge> length miner_list then False
      else if \<not> verify env (miner_list ! unat (fst item)) (snd item) h then False
      else check_signatures env miner_list h items)"

definition checkBlockSign :: "Env \<Rightarrow> BlockHeader \<Rightarrow> (u256 \<times> Signature) list \<Rightarrow> bool" where
  "checkBlockSign env header sign_list =
     (case getMinerList env (u256_to_int env (number header - 1)) [] of
        (False, _) \<Rightarrow> False
      | (True, miner_list) \<Rightarrow>
          if nodeList header \<noteq> miner_list then False
          else if \<not> enough_signs sign_list miner_list then False
          else check_signatures env miner_list (hashWithoutSeal header) sign_list)"

section \<open>Engine state\<close>

text \<open>
  What the engine hands to its collaborators: messages given to \<open>broadcastMsg\<close> (the
  per-peer seen filters live in the peers and are not part of the engine state), the
  unicast view-change reply, the forward made by \<open>handleMsg\<close>, \<open>clearMask\<close>, the
  write of the committed-prepare to the backup store, the \<open>m_onViewChange\<close> callback,
  and the emission callback \<open>m_onSealGenerated\<close>. An emission records the hash logged
  next to it (\<open>m_prepare_cache.block_hash\<close>), the block bytes whose first four RLP
  fields are copied into the sealed block, the signature list appended as fifth field,
  and the primary flag.
\<close>

datatype effect =
    BroadcastPrepareReq PrepareReq
  | BroadcastSignReq SignReq
  | BroadcastCommitReq CommitReq
  | BroadcastViewChangeReq ViewChangeReq
  | SendViewChangeReq ViewChangeReq
  | ForwardMsg nat PBFTMsg
  | ClearMask
  | BackupCommitted PrepareReq
  | OnViewChange
  | SealGenerated h256 bytes "(u256 \<times> Signature) list" bool

text \<open>
  The member variables of \<open>PBFT\<close>. The nested caches are association lists in the
  iteration order of the container; the inner maps of the sign and commit caches are
  keyed by \<open>sig.hex()\<close>, which is one-to-one with the signature, so the model keys
  them by the signature itself.
\<close>

type_synonym vote_cache = "(h256 \<times> (Signature \<times> PBFTMsg) list) list"

record PBFT =
  m_cfg_err :: bool
  m_account_type :: int
  m_node_num :: u256
  m_node_idx :: u256
  m_f :: u256
  m_miner_list :: "h512 list"
  m_view :: u256
  m_to_view :: u256
  m_change_cycle :: unsigned
  m_leader_failed :: bool
  m_empty_block_flag :: bool
  m_omit_empty_block :: bool
  m_view_timeout :: unsigned
  m_consensus_block_number :: u256
  m_highest_block :: BlockHeader
  m_last_consensus_time :: uint64
  m_last_sign_time :: uint64
  m_last_exec_finish_time :: uint64
  m_last_collect_time :: int
  m_raw_prepare_cache :: PrepareReq
  m_prepare_cache :: PrepareReq
  m_committed_prepare_cache :: PrepareReq
  m_future_prepare_cache :: "u256 \<times> PrepareReq"
  m_sign_cache :: vote_cache
  m_commit_cache :: vote_cache
  m_recv_view_change_req :: "(u256 \<times> (u256 \<times> ViewChangeReq) list) list"
  m_commitMap :: "(h256 \<times> bool) list"
  effects :: "effect list"

subsection \<open>Container operations\<close>

text \<open>\<open>m[k] = v\<close>: overwrite the entry of an existing key, or add the entry.\<close>

fun map_put :: "'k \<Rightarrow> 'v \<Rightarrow> ('k \<times> 'v) list \<Rightarrow> ('k \<times> 'v) list" where
  "map_put k v [] = [(k, v)]"
| "map_put k v (e # m) = (if fst e = k then (k, v) # m else e # map_put k v m)"

text \<open>Reading \<open>m[k]\<close> of a map of maps: a missing key gets an empty inner map.\<close>

definition map_touch :: "'k \<Rightarrow> ('k \<times> 'v list) list \<Rightarrow> ('k \<times> 'v list) list" where
  "map_touch k m = (case map_of m k of None \<Rightarrow> m @ [(k, [])] | Some _ \<Rightarrow> m)"

definition map_at :: "'k \<Rightarrow> ('k \<times> 'v list) list \<Rightarrow> 'v list" where
  "map_at k m = (case map_of m k of None \<Rightarrow> [] | Some es \<Rightarrow> es)"

definition map_erase :: "'k \<Rightarrow> ('k \<times> 'v) list \<Rightarrow> ('k \<times> 'v) list" where
  "map_erase k m = filter (\<lambda>e. fst e \<noteq> k) m"

text \<open>\<open>m[k].size()\<close> converted to \<open>u256\<close>.\<close>

definition size_u256 :: "'a list \<Rightarrow> u256" where
  "size_u256 xs = of_nat (length xs)"

subsection \<open>Configuration and quorum\<close>

text \<open>
  Lines 145 to 154 of \<open>resetConfig\<close>: the roster size and own index are stored, the
  fault bound is recomputed and the caches are dropped.
\<close>

definition reconfigure :: "Env \<Rightarrow> u256 \<Rightarrow> u256 \<Rightarrow> PBFT \<Rightarrow> PBFT" where
  "reconfigure env node_num node_idx st =
     st\<lparr>m_node_num := node_num, m_node_idx := node_idx, m_f := (node_num - 1) div 3,
        m_prepare_cache := emptyPrepareReq env, m_sign_cache := [],
        m_recv_view_change_req := [], m_commitMap := []\<rparr>"

definition resetConfig :: "Env \<Rightarrow> PBFT \<Rightarrow> PBFT" where
  "resetConfig env st0 =
     (case getAccountType env (self_pub env) of
        None \<Rightarrow> st0\<lparr>m_cfg_err := True\<rparr>
      | Some t \<Rightarrow>
          (let st = st0\<lparr>m_account_type := t\<rparr>; node_num = getMinerNum env in
           if node_num = 0 then st\<lparr>m_cfg_err := True\<rparr>
           else
             (case getIdx env (self_pub env) of
                None \<Rightarrow> st\<lparr>m_cfg_err := True\<rparr>
              | Some node_idx \<Rightarrow>
                  (if node_num \<noteq> m_node_num st \<or> node_idx \<noteq> m_node_idx st then
                     (let st = reconfigure env node_num node_idx st;
                          r = getMinerList env (- 1) (m_miner_list st);
                          st = st\<lparr>m_miner_list := snd r\<rparr>
                      in if \<not> fst r then st\<lparr>m_cfg_err := True\<rparr>
                         else if (ucast (size_t (length (m_miner_list st))) :: u256) \<noteq> m_node_num st
                           then st\<lparr>m_cfg_err := True\<rparr>
                         else st\<lparr>m_cfg_err := False\<rparr>)
                   else st\<lparr>m_cfg_err := False\<rparr>))))"

text \<open>
  Modelled from the spec: \<open>quorum()\<close> is declared in PBFT.h, which is not among the
  source files. The spec gives \<open>quorum = N - f\<close>, with \<open>N\<close> and \<open>f\<close> the values
  \<open>resetConfig\<close> stores in \<open>m_node_num\<close> and \<open>m_f\<close>.
\<close>

definition quorum :: "PBFT \<Rightarrow> u256" where
  "quorum st = m_node_num st - m_f st"

subsection \<open>Messages and broadcast\<close>

text \<open>
  \<open>checkSign(PBFTMsg)\<close>: the signer's key is looked up by index; \<open>sig\<close> must verify
  over the block hash and \<open>sig2\<close> over the fields without the block.
\<close>

definition checkSign :: "Env \<Rightarrow> 'a PBFTMsg_scheme \<Rightarrow> bool" where
  "checkSign env req =
     (case getPublicKey env (idx req) of
        None \<Rightarrow> False
      | Some pub_id \<Rightarrow>
          verify env pub_id (sig req) (block_hash req)
          \<and> verify env pub_id (sig2 req) (fieldsWithoutBlock env (PBFTMsg.truncate req)))"

text \<open>
  The way every message is built: a default-constructed request gets its height,
  view, sender index, the current time and the block hash, then \<open>sig\<close> over the hash
  and \<open>sig2\<close> over the fields without the block.
\<close>

definition new_msg :: "Env \<Rightarrow> u256 \<Rightarrow> u256 \<Rightarrow> u256 \<Rightarrow> h256 \<Rightarrow> PBFTMsg" where
  "new_msg env h v i bh =
     (let m = (PBFTMsg.truncate (emptyPrepareReq env))
                \<lparr>height := h, view := v, idx := i, timestamp := ucast (utcTime env),
                 block_hash := bh, sig := signHash env bh\<rparr>
      in m\<lparr>sig2 := signHash env (fieldsWithoutBlock env m)\<rparr>)"

definition new_prepare :: "Env \<Rightarrow> u256 \<Rightarrow> u256 \<Rightarrow> u256 \<Rightarrow> h256 \<Rightarrow> bytes \<Rightarrow> PrepareReq" where
  "new_prepare env h v i bh blk =
     (let m = new_msg env h v i bh
      in \<lparr>height = height m, view = view m, idx = idx m, timestamp = timestamp m,
          block_hash = block_hash m, sig = sig m, sig2 = sig2 m, block = blk\<rparr>)"

text \<open>
  \<open>broadcastMsg\<close> succeeds exactly when the host is still alive; the message is then
  handed to the peers.
\<close>

definition broadcastMsg :: "Env \<Rightarrow> effect \<Rightarrow> PBFT \<Rightarrow> bool \<times> PBFT" where
  "broadcastMsg env e st =
     (if host_alive env then (True, st\<lparr>effects := effects st @ [e]\<rparr>) else (False, st))"

subsection \<open>Cache updates\<close>

definition addSignReq :: "SignReq \<Rightarrow> PBFT \<Rightarrow> PBFT" where
  "addSignReq req st =
     st\<lparr>m_sign_cache :=
          map_put (block_hash req)
            (map_put (sig req) req (map_at (block_hash req) (m_sign_cache st)))
            (m_sign_cache st)\<rparr>"

definition addCommitReq :: "CommitReq \<Rightarrow> PBFT \<Rightarrow> PBFT" where
  "addCommitReq req st =
     st\<lparr>m_commit_cache :=
          map_put (block_hash req)
            (map_put (sig req) req (map_at (block_hash req) (m_commit_cache st)))
            (m_commit_cache st)\<rparr>"

definition addRawPrepare :: "Env \<Rightarrow> PrepareReq \<Rightarrow> PBFT \<Rightarrow> PBFT" where
  "addRawPrepare env req st =
     st\<lparr>m_raw_prepare_cache := req, m_prepare_cache := emptyPrepareReq env\<rparr>"

text \<open>
  The filter of \<open>addPrepareReq\<close>: in the entry of the prepare's hash, votes of another
  view are erased.
\<close>

definition drop_other_views :: "h256 \<Rightarrow> u256 \<Rightarrow> vote_cache \<Rightarrow> vote_cache" where
  "drop_other_views h v c =
     map (\<lambda>e. if fst e = h then (fst e, filter (\<lambda>x. view (snd x) = v) (snd e)) else e) c"

definition addPrepareReq :: "PrepareReq \<Rightarrow> PBFT \<Rightarrow> PBFT" where
  "addPrepareReq req st =
     st\<lparr>m_prepare_cache := req,
        m_sign_cache := drop_other_views (block_hash req) (view req) (m_sign_cache st),
        m_commit_cache := drop_other_views (block_hash req) (view req) (m_commit_cache st)\<rparr>"

definition delCache :: "Env \<Rightarrow> h256 \<Rightarrow> PBFT \<Rightarrow> PBFT" where
  "delCache env h st =
     st\<lparr>m_sign_cache := map_erase h (m_sign_cache st),
        m_commit_cache := map_erase h (m_commit_cache st),
        m_prepare_cache :=
          (if h = block_hash (m_prepare_cache st) then emptyPrepareReq env
           else m_prepare_cache st),
        m_commitMap := map_erase h (m_commitMap st)\<rparr>"

text \<open>
  A cached view change is stale when it is below the chain tip, or at the tip with a
  different hash.
\<close>

definition stale_view_change :: "BlockHeader \<Rightarrow> ViewChangeReq \<Rightarrow> bool" where
  "stale_view_change tip r =
     (height r < number tip \<or> (height r = number tip \<and> block_hash r \<noteq> hashWithoutSeal tip))"

definition delViewChange :: "PBFT \<Rightarrow> PBFT" where
  "delViewChange st =
     st\<lparr>m_recv_view_change_req :=
          filter (\<lambda>e. length (snd e) \<noteq> 0)
            (map (\<lambda>e. (fst e, filter (\<lambda>x. \<not> stale_view_change (m_highest_block st) (snd x)) (snd e)))
               (m_recv_view_change_req st))\<rparr>"

subsection \<open>Broadcasting votes\<close>

definition broadcastSignReq :: "Env \<Rightarrow> PrepareReq \<Rightarrow> PBFT \<Rightarrow> bool \<times> PBFT" where
  "broadcastSignReq env req st =
     (let sign_req = new_msg env (height req) (view req) (m_node_idx st) (block_hash req);
          r = broadcastMsg env (BroadcastSignReq sign_req) st
      in if fst r then (True, addSignReq sign_req (snd r)) else (False, snd r))"

definition broadcastCommitReq :: "Env \<Rightarrow> PrepareReq \<Rightarrow> PBFT \<Rightarrow> bool \<times> PBFT" where
  "broadcastCommitReq env req st =
     (let commit_req = new_msg env (height req) (view req) (m_node_idx st) (block_hash req);
          r = broadcastMsg env (BroadcastCommitReq commit_req) st
      in if fst r then (True, addCommitReq commit_req (snd r)) else (False, snd r))"

definition broadcastPrepareReq :: "Env \<Rightarrow> BlockHeader \<Rightarrow> bytes \<Rightarrow> PBFT \<Rightarrow> bool \<times> PBFT" where
  "broadcastPrepareReq env bi block_data st =
     (let req = new_prepare env (number bi) (m_view st) (m_node_idx st) (hashWithoutSeal bi) block_data;
          r = broadcastMsg env (BroadcastPrepareReq req) st
      in if fst r then (True, addRawPrepare env req (snd r)) else (False, snd r))"

definition broadcastViewChangeReq :: "Env \<Rightarrow> PBFT \<Rightarrow> bool \<times> PBFT" where
  "broadcastViewChangeReq env st =
     (if m_account_type st \<noteq> EN_ACCOUNT_TYPE_MINER env then (True, st)
      else
        let req = new_msg env (number (m_highest_block st)) (m_to_view st) (m_node_idx st)
                    (hashWithoutSeal (m_highest_block st));
            st = st\<lparr>m_empty_block_flag := False\<rparr>
        in broadcastMsg env (BroadcastViewChangeReq req) st)"

subsection \<open>Phase transitions\<close>

text \<open>
  \<open>checkAndSave\<close>. Reading \<open>m_sign_cache[h].size()\<close> and \<open>m_commit_cache[h].size()\<close>
  creates the entries of \<open>h\<close> when they are missing. The flag in \<open>m_commitMap\<close> is set
  as soon as both counts reach the quorum; the view and height tests come after it.
\<close>

definition checkAndSave :: "Env \<Rightarrow> PBFT \<Rightarrow> PBFT" where
  "checkAndSave env st0 =
     (let h = block_hash (m_prepare_cache st0);
          st = st0\<lparr>m_sign_cache := map_touch h (m_sign_cache st0),
                   m_commit_cache := map_touch h (m_commit_cache st0)\<rparr>;
          have_sign = size_u256 (map_at h (m_sign_cache st));
          have_commit = size_u256 (map_at h (m_commit_cache st));
          committed = (case map_of (m_commitMap st) h of None \<Rightarrow> False | Some b \<Rightarrow> b)
      in if have_sign \<ge> quorum st \<and> have_commit \<ge> quorum st \<and> \<not> committed then
           (let st = st\<lparr>m_commitMap := map_put h True (m_commitMap st)\<rparr> in
            if view (m_prepare_cache st) \<noteq> m_view st then st
            else if height (m_prepare_cache st) > number (m_highest_block st) then
              (let sig_list = map (\<lambda>item. (idx (snd item), fst item)) (map_at h (m_commit_cache st))
               in st\<lparr>effects := effects st @
                     [SealGenerated h (block (m_prepare_cache st)) sig_list
                        (idx (m_prepare_cache st) = m_node_idx st)]\<rparr>)
            else st)
         else st)"

definition checkAndCommit :: "Env \<Rightarrow> PBFT \<Rightarrow> PBFT" where
  "checkAndCommit env st0 =
     (let h = block_hash (m_prepare_cache st0);
          st = st0\<lparr>m_sign_cache := map_touch h (m_sign_cache st0)\<rparr>;
          have_sign = size_u256 (map_at h (m_sign_cache st))
      in if have_sign = quorum st then
           (if view (m_prepare_cache st) \<noteq> m_view st then st
            else
              (let st = st\<lparr>m_committed_prepare_cache := m_raw_prepare_cache st\<rparr>;
                   st = st\<lparr>effects := effects st @ [BackupCommitted (m_committed_prepare_cache st)]\<rparr>;
                   st = (if m_account_type st = EN_ACCOUNT_TYPE_MINER env
                         then snd (broadcastCommitReq env (m_prepare_cache st) st) else st);
                   st = st\<lparr>m_last_sign_time := utcTime env\<rparr>
               in checkAndSave env st))
         else st)"

definition checkAndChangeView :: "Env \<Rightarrow> PBFT \<Rightarrow> PBFT" where
  "checkAndChangeView env st0 =
     (let st = st0\<lparr>m_recv_view_change_req := map_touch (m_to_view st0) (m_recv_view_change_req st0)\<rparr>;
          count = size_u256 (map_at (m_to_view st) (m_recv_view_change_req st))
      in if count \<ge> quorum st - 1 then
           st\<lparr>m_leader_failed := False, m_view := m_to_view st,
              m_raw_prepare_cache := emptyPrepareReq env,
              m_prepare_cache := emptyPrepareReq env,
              m_sign_cache := [], m_commit_cache := [], m_commitMap := [],
              m_recv_view_change_req :=
                filter (\<lambda>e. \<not> fst e \<le> m_to_view st) (m_recv_view_change_req st)\<rparr>
         else st)"

subsection \<open>Leader election and proposals\<close>

text \<open>
  \<open>getLeader\<close>. The division is reached only without a configuration error, and
  \<open>resetConfig\<close> reports a configuration error for a roster without miners.
\<close>

definition getLeader :: "Env \<Rightarrow> PBFT \<Rightarrow> bool \<times> u256" where
  "getLeader env st =
     (if m_cfg_err st \<or> m_leader_failed st \<or> number (m_highest_block st) = Invalid256 env
      then (False, Invalid256 env)
      else (True, (m_view st + number (m_highest_block st)) mod m_node_num st))"

definition isExistPrepare :: "PBFT \<Rightarrow> PrepareReq \<Rightarrow> bool" where
  "isExistPrepare st req = (block_hash (m_raw_prepare_cache st) = block_hash req)"

definition isExistSign :: "PBFT \<Rightarrow> SignReq \<Rightarrow> bool" where
  "isExistSign st req =
     (case map_of (m_sign_cache st) (block_hash req) of
        None \<Rightarrow> False
      | Some es \<Rightarrow> map_of es (sig req) \<noteq> None)"

definition isExistCommit :: "PBFT \<Rightarrow> CommitReq \<Rightarrow> bool" where
  "isExistCommit st req =
     (case map_of (m_commit_cache st) (block_hash req) of
        None \<Rightarrow> False
      | Some es \<Rightarrow> map_of es (sig req) \<noteq> None)"

definition isExistViewChange :: "PBFT \<Rightarrow> ViewChangeReq \<Rightarrow> bool" where
  "isExistViewChange st req =
     (case map_of (m_recv_view_change_req st) (view req) of
        None \<Rightarrow> False
      | Some es \<Rightarrow> map_of es (idx req) \<noteq> None)"

definition recvFutureBlock :: "u256 \<Rightarrow> PrepareReq \<Rightarrow> PBFT \<Rightarrow> PBFT" where
  "recvFutureBlock from req st =
     (if block_hash (snd (m_future_prepare_cache st)) \<noteq> block_hash req
      then st\<lparr>m_future_prepare_cache := (from, req)\<rparr> else st)"

definition changeViewForEmptyBlockWithoutLock :: "PBFT \<Rightarrow> PBFT" where
  "changeViewForEmptyBlockWithoutLock st =
     st\<lparr>m_last_consensus_time := 0, m_last_sign_time := 0, m_change_cycle := 0,
        m_empty_block_flag := True\<rparr>"

definition changeViewForEmptyBlockWithLock :: "PBFT \<Rightarrow> PBFT" where
  "changeViewForEmptyBlockWithLock st =
     st\<lparr>m_last_consensus_time := 0, m_last_sign_time := 0, m_change_cycle := 0,
        m_empty_block_flag := True, m_leader_failed := True\<rparr>"

text \<open>
  The tail of \<open>handlePrepareMsg\<close>, from \<open>addRawPrepare\<close> on: the proposal becomes
  the raw prepare, the block is executed, and the re-sealed block is stored as the
  prepare under the hash of the executed header. An exception of the executor, a hash
  mismatch, an empty block under \<open>m_omit_empty_block\<close> and a failed \<open>sealBlock\<close>
  all return with the prepare cache as \<open>addRawPrepare\<close> left it.
\<close>

definition acceptPrepare :: "Env \<Rightarrow> PrepareReq \<Rightarrow> PBFT \<Rightarrow> PBFT" where
  "acceptPrepare env req st0 =
     (let st = addRawPrepare env req st0 in
      case checkBlockValid env (block_hash req) (block req) of
        None \<Rightarrow> st
      | Some out \<Rightarrow>
          (if exec_hash out \<noteq> block_hash req then st
           else
             (let st = st\<lparr>m_last_exec_finish_time := utcTime env\<rparr> in
              if pending_size out = 0 \<and> m_omit_empty_block st
              then changeViewForEmptyBlockWithoutLock st
              else
                (case resealed out of
                   None \<Rightarrow> st
                 | Some hb \<Rightarrow>
                     (let req2 = new_prepare env (height req) (view req) (idx req) (fst hb) (snd hb);
                          st = addPrepareReq req2 st;
                          st = (if m_account_type st = EN_ACCOUNT_TYPE_MINER env
                                then snd (broadcastSignReq env req2 st) else st)
                      in checkAndCommit env st)))))"

definition handlePrepareMsg :: "Env \<Rightarrow> u256 \<Rightarrow> PrepareReq \<Rightarrow> bool \<Rightarrow> PBFT \<Rightarrow> PBFT" where
  "handlePrepareMsg env from req self st =
     (if isExistPrepare st req then st
      else if \<not> self \<and> idx req = m_node_idx st then st
      else if height req < m_consensus_block_number st \<or> view req < m_view st then st
      else if height req > m_consensus_block_number st \<or> view req > m_view st
        then recvFutureBlock from req st
      else
        (let leader = getLeader env st in
         if \<not> fst leader \<or> idx req \<noteq> snd leader then st
         else if height req = height (m_committed_prepare_cache st)
                 \<and> block_hash req \<noteq> block_hash (m_committed_prepare_cache st) then st
         else if \<not> checkSign env req then st
         else acceptPrepare env req st))"

definition reHandlePrepareReq :: "Env \<Rightarrow> PrepareReq \<Rightarrow> PBFT \<Rightarrow> PBFT" where
  "reHandlePrepareReq env req0 st0 =
     (let st = st0\<lparr>effects := effects st0 @ [ClearMask]\<rparr>;
          req = new_prepare env (height req0) (m_view st) (m_node_idx st) (block_hash req0) (block req0);
          st = snd (broadcastMsg env (BroadcastPrepareReq req) st)
      in handlePrepareMsg env (m_node_idx st) req True st)"

text \<open>
  \<open>shouldSeal\<close>: the answer and the state it leaves. When the elected leader is a
  known but disconnected peer the timeout anchors are zeroed; when the committed
  prepare is at the consensus height and the raw prepare is not, the committed prepare
  is posted again.
\<close>

definition shouldSeal :: "Env \<Rightarrow> PBFT \<Rightarrow> bool \<times> PBFT" where
  "shouldSeal env st =
     (if m_cfg_err st \<or> m_account_type st \<noteq> EN_ACCOUNT_TYPE_MINER env then (False, st)
      else
        (let ret = getLeader env st in
         if \<not> fst ret then (False, st)
         else if snd ret \<noteq> m_node_idx st then
           (False,
            if host_alive env then
              (case getPublicKey env (snd ret) of
                 None \<Rightarrow> st
               | Some node_id \<Rightarrow>
                   (if \<not> isConnected env node_id
                    then st\<lparr>m_last_consensus_time := 0, m_last_sign_time := 0\<rparr> else st))
            else st)
         else if m_consensus_block_number st = height (m_committed_prepare_cache st) then
           (False,
            if m_consensus_block_number st \<noteq> height (m_raw_prepare_cache st)
            then reHandlePrepareReq env (m_committed_prepare_cache st) st else st)
         else (True, st)))"

definition generateSeal :: "Env \<Rightarrow> BlockHeader \<Rightarrow> bytes \<Rightarrow> PBFT \<Rightarrow> (bool \<times> u256) \<times> PBFT" where
  "generateSeal env bi block_data st =
     (let r = broadcastPrepareReq env bi block_data st in ((fst r, m_view st), snd r))"

definition generateCommit :: "Env \<Rightarrow> BlockHeader \<Rightarrow> bytes \<Rightarrow> u256 \<Rightarrow> PBFT \<Rightarrow> bool \<times> PBFT" where
  "generateCommit env bi block_data v st =
     (if v \<noteq> m_view st then (False, st)
      else
        (let req = new_prepare env (number bi) v (m_node_idx st) (hashWithoutSeal bi) block_data;
             st = addPrepareReq req st;
             r = broadcastSignReq env req st
         in (True, if fst r then checkAndCommit env (snd r) else snd r)))"

subsection \<open>Vote handlers\<close>

definition handleSignMsg :: "Env \<Rightarrow> u256 \<Rightarrow> SignReq \<Rightarrow> PBFT \<Rightarrow> PBFT" where
  "handleSignMsg env from req st =
     (if isExistSign st req then st
      else if idx req = m_node_idx st then st
      else if block_hash (m_prepare_cache st) \<noteq> block_hash req then
        (let future_msg = (height req \<ge> m_consensus_block_number st \<or> view req > m_view st)
         in if future_msg \<and> checkSign env req then addSignReq req st else st)
      else if view (m_prepare_cache st) \<noteq> view req then st
      else if \<not> checkSign env req then st
      else checkAndCommit env (addSignReq req st))"

definition handleCommitMsg :: "Env \<Rightarrow> u256 \<Rightarrow> CommitReq \<Rightarrow> PBFT \<Rightarrow> PBFT" where
  "handleCommitMsg env from req st =
     (if isExistCommit st req then st
      else if idx req = m_node_idx st then st
      else if block_hash (m_prepare_cache st) \<noteq> block_hash req then
        (let future_msg = (height req \<ge> m_consensus_block_number st \<or> view req > m_view st)
         in if future_msg \<and> checkSign env req then addCommitReq req st else st)
      else if view (m_prepare_cache st) \<noteq> view req then st
      else if \<not> checkSign env req then st
      else checkAndSave env (addCommitReq req st))"

subsection \<open>View change\<close>

text \<open>
  The scan of \<open>handleViewChangeMsg\<close> over the cached view changes above \<open>m_to_view\<close>:
  per signer the highest view seen so far (\<open>idx_view_map\<close>), the least view and the
  least height among the entries that were taken. Whether an entry is taken depends on
  the entries of the same signer visited before it, so the outer loop follows the order
  of the container's iterator, \<open>view_iteration\<close>, and not the order of insertion.
  Under one view every signer has one entry, so the order of the inner loop changes
  nothing but the order of \<open>idx_view_map\<close>, of which only the size is read.
\<close>

type_synonym vc_scan = "(u256 \<times> u256) list \<times> u256 \<times> u256"

definition vc_scan_entry :: "u256 \<Rightarrow> u256 \<Rightarrow> vc_scan \<Rightarrow> (u256 \<times> ViewChangeReq) \<Rightarrow> vc_scan" where
  "vc_scan_entry tip v acc e =
     (case acc of (idx_view_map, min_view, min_height) \<Rightarrow>
        (if height (snd e) \<ge> tip
            \<and> (case map_of idx_view_map (fst e) of None \<Rightarrow> True | Some w \<Rightarrow> v > w)
         then (map_put (fst e) v idx_view_map,
               (if min_view > v then v else min_view),
               (if min_height > height (snd e) then height (snd e) else min_height))
         else acc))"

definition vc_scan_all :: "Env \<Rightarrow> PBFT \<Rightarrow> vc_scan" where
  "vc_scan_all env st =
     foldl (\<lambda>acc v.
              if v > m_to_view st
              then foldl (vc_scan_entry (number (m_highest_block st)) v) acc
                     (map_at v (m_recv_view_change_req st))
              else acc)
       ([], Invalid256 env, Invalid256 env)
       (view_iteration env (map fst (m_recv_view_change_req st)))"

definition fastViewChange :: "Env \<Rightarrow> PBFT \<Rightarrow> PBFT" where
  "fastViewChange env st =
     (case vc_scan_all env st of (idx_view_map, min_view, min_height) \<Rightarrow>
        (let count = size_u256 idx_view_map;
             flag = (min_height = m_consensus_block_number st
                     \<and> min_height = height (m_committed_prepare_cache st))
         in if count > m_f st \<and> \<not> flag then
              (let st = st\<lparr>m_last_consensus_time := 0, m_last_sign_time := 0,
                          m_to_view := min_view - 1\<rparr>
               in st\<lparr>m_change_cycle :=
                       min (u256_to_unsigned env (m_to_view st)) (kMaxChangeCycle env)\<rparr>)
            else st))"

text \<open>
  \<open>handleViewChangeMsg\<close>; \<open>session_ok\<close> says whether the sender's session and its
  PBFT capability are still there for the unicast reply.
\<close>

definition handleViewChangeMsg :: "Env \<Rightarrow> u256 \<Rightarrow> ViewChangeReq \<Rightarrow> bool \<Rightarrow> PBFT \<Rightarrow> PBFT" where
  "handleViewChangeMsg env from req session_ok st0 =
     (if isExistViewChange st0 req then st0
      else if idx req = m_node_idx st0 then st0
      else
        (let st =
               (if view req + 1 < m_to_view st0 \<and> idx req = from
                   \<and> m_account_type st0 = EN_ACCOUNT_TYPE_MINER env \<and> session_ok
                then st0\<lparr>effects := effects st0 @
                       [SendViewChangeReq
                          (new_msg env (number (m_highest_block st0)) (m_to_view st0)
                             (m_node_idx st0) (hashWithoutSeal (m_highest_block st0)))]\<rparr>
                else st0)
         in if height req < number (m_highest_block st) \<or> view req \<le> m_view st then st
            else if height req = number (m_highest_block st)
                    \<and> block_hash req \<noteq> hashWithoutSeal (m_highest_block st)
                    \<and> \<not> chain_has_block env (block_hash req) then st
            else if \<not> checkSign env req then st
            else
              (let st = st\<lparr>m_recv_view_change_req :=
                            map_put (view req)
                              (map_put (idx req) req (map_at (view req) (m_recv_view_change_req st)))
                              (m_recv_view_change_req st)\<rparr>
               in if view req = m_to_view st then checkAndChangeView env st
                  else fastViewChange env st)))"

text \<open>
  \<open>checkTimeout\<close>. The elapsed time is computed in \<open>uint64_t\<close>. A failed broadcast
  returns from the function before \<open>checkAndChangeView\<close> and before the
  \<open>m_onViewChange\<close> callback.
\<close>

definition checkTimeout :: "Env \<Rightarrow> PBFT \<Rightarrow> PBFT" where
  "checkTimeout env st0 =
     (let now_time = utcTime env;
          last_time = max (m_last_consensus_time st0) (m_last_sign_time st0);
          interval = timeout_interval env (m_view_timeout st0) (m_change_cycle st0)
      in if now_time - last_time \<ge> interval then
           (let st = st0\<lparr>m_leader_failed := True, m_to_view := m_to_view st0 + 1,
                        m_change_cycle := min (m_change_cycle st0 + 1) (kMaxChangeCycle env),
                        m_last_consensus_time := now_time\<rparr>;
                st = st\<lparr>m_recv_view_change_req :=
                          map_put (m_to_view st)
                            (filter (\<lambda>x. \<not> stale_view_change (m_highest_block st) (snd x))
                               (map_at (m_to_view st) (m_recv_view_change_req st)))
                            (m_recv_view_change_req st)\<rparr>;
                r = broadcastViewChangeReq env st
            in if \<not> fst r then snd r
               else (let st = checkAndChangeView env (snd r)
                     in st\<lparr>effects := effects st @ [OnViewChange]\<rparr>))
         else st0)"

subsection \<open>Chain progress and housekeeping\<close>

definition reportBlock :: "Env \<Rightarrow> BlockHeader \<Rightarrow> PBFT \<Rightarrow> PBFT" where
  "reportBlock env b st0 =
     (let st = st0\<lparr>m_highest_block := b\<rparr>;
          st = (if number (m_highest_block st) \<ge> m_consensus_block_number st then
                  delViewChange
                    (st\<lparr>m_view := 0, m_to_view := 0, m_change_cycle := 0,
                        m_leader_failed := False, m_last_consensus_time := utcTime env,
                        m_consensus_block_number := number (m_highest_block st) + 1\<rparr>)
                else st);
          st = resetConfig env st
      in delCache env (hashWithoutSeal (m_highest_block st)) st)"

definition handleFutureBlock :: "Env \<Rightarrow> PBFT \<Rightarrow> PBFT" where
  "handleFutureBlock env st =
     (if height (snd (m_future_prepare_cache st)) = m_consensus_block_number st
         \<and> view (snd (m_future_prepare_cache st)) = m_view st
      then
        (let st = handlePrepareMsg env (fst (m_future_prepare_cache st))
                    (snd (m_future_prepare_cache st)) False st
         in st\<lparr>m_future_prepare_cache := (Invalid256 env, emptyPrepareReq env)\<rparr>)
      else st)"

text \<open>
  \<open>collectGarbage\<close>, at most once per \<open>kCollectInterval = 60\<close> seconds: votes below
  the chain tip are erased; a hash whose sign votes are all gone loses its entry in
  \<open>m_commitMap\<close> as well.
\<close>

definition prune_votes :: "u256 \<Rightarrow> vote_cache \<Rightarrow> vote_cache" where
  "prune_votes tip c = map (\<lambda>e. (fst e, filter (\<lambda>x. \<not> height (snd x) < tip) (snd e))) c"

definition collectGarbage :: "Env \<Rightarrow> PBFT \<Rightarrow> PBFT" where
  "collectGarbage env st =
     (if \<not> header_valid (m_highest_block st) then st
      else if clock_seconds env - m_last_collect_time st \<ge> 60 then
        (let tip = number (m_highest_block st);
             signs = prune_votes tip (m_sign_cache st);
             emptied = map fst (filter (\<lambda>e. length (snd e) = 0) signs)
         in st\<lparr>m_sign_cache := filter (\<lambda>e. length (snd e) \<noteq> 0) signs,
               m_commitMap := filter (\<lambda>e. fst e \<notin> set emptied) (m_commitMap st),
               m_commit_cache := filter (\<lambda>e. length (snd e) \<noteq> 0) (prune_votes tip (m_commit_cache st)),
               m_last_collect_time := clock_seconds env\<rparr>)
      else st)"

subsection \<open>Entry points\<close>

text \<open>
  A decoded inbound packet (\<open>PrepareReqPacket = 0\<close>, \<open>SignReqPacket\<close>,
  \<open>CommitReqPacket\<close>, \<open>ViewChangeReqPacket\<close>), and \<open>handleMsg\<close>: dispatch to the
  handler, then forward the message to the other miners when it is within ten blocks
  of the chain tip and came from its own author.
\<close>

datatype packet =
    PrepareReqPacket PrepareReq
  | SignReqPacket SignReq
  | CommitReqPacket CommitReq
  | ViewChangeReqPacket ViewChangeReq bool

fun packet_id :: "packet \<Rightarrow> nat" where
  "packet_id (PrepareReqPacket _) = 0"
| "packet_id (SignReqPacket _) = 1"
| "packet_id (CommitReqPacket _) = 2"
| "packet_id (ViewChangeReqPacket _ _) = 3"

fun packet_msg :: "packet \<Rightarrow> PBFTMsg" where
  "packet_msg (PrepareReqPacket r) = PBFTMsg.truncate r"
| "packet_msg (SignReqPacket r) = r"
| "packet_msg (CommitReqPacket r) = r"
| "packet_msg (ViewChangeReqPacket r _) = r"

fun dispatch :: "Env \<Rightarrow> u256 \<Rightarrow> packet \<Rightarrow> PBFT \<Rightarrow> PBFT" where
  "dispatch env from (PrepareReqPacket r) st = handlePrepareMsg env from r False st"
| "dispatch env from (SignReqPacket r) st = handleSignMsg env from r st"
| "dispatch env from (CommitReqPacket r) st = handleCommitMsg env from r st"
| "dispatch env from (ViewChangeReqPacket r s) st = handleViewChangeMsg env from r s st"

definition handleMsg :: "Env \<Rightarrow> u256 \<Rightarrow> packet \<Rightarrow> PBFT \<Rightarrow> PBFT" where
  "handleMsg env from p st0 =
     (let st = dispatch env from p st0;
          pbft_msg = packet_msg p;
          height_flag = (height pbft_msg > number (m_highest_block st)
                         \<or> number (m_highest_block st) - height pbft_msg < 10)
      in if height_flag \<and> idx pbft_msg = from
         then snd (broadcastMsg env (ForwardMsg (packet_id p) pbft_msg) st)
         else st)"

text \<open>
  The calls the worker loop, the network and the client make into the engine, each
  under the engine's mutex, and the engine's reaction to one of them.
\<close>

datatype call =
    OnMsg u256 packet
  | CheckTimeout
  | HandleFutureBlock
  | CollectGarbage
  | ShouldSeal
  | GenerateSeal BlockHeader bytes
  | GenerateCommit BlockHeader bytes u256
  | ReportBlock BlockHeader
  | ChangeViewForEmptyBlock

fun step :: "Env \<Rightarrow> call \<Rightarrow> PBFT \<Rightarrow> PBFT" where
  "step env (OnMsg from p) st = handleMsg env from p st"
| "step env CheckTimeout st = checkTimeout env st"
| "step env HandleFutureBlock st = handleFutureBlock env st"
| "step env CollectGarbage st = collectGarbage env st"
| "step env ShouldSeal st = snd (shouldSeal env st)"
| "step env (GenerateSeal bi d) st = snd (generateSeal env bi d st)"
| "step env (GenerateCommit bi d v) st = snd (generateCommit env bi d v st)"
| "step env (ReportBlock b) st = reportBlock env b st"
| "step env ChangeViewForEmptyBlock st = changeViewForEmptyBlockWithLock st"

text \<open>A run: calls in order, each with the environment it meets.\<close>

fun run :: "(Env \<times> call) list \<Rightarrow> PBFT \<Rightarrow> PBFT" where
  "run [] st = st"
| "run (c # cs) st = run cs (step (fst c) (snd c) st)"

section \<open>A deployment of four miners\<close>

text \<open>
  A concrete environment on which the engine can be run: four miners with indices 0 to
  3 and public keys 100 to 103, this node being miner 0. Its signature scheme is a
  stand-in with the one property of ECDSA that matters here: a key has more than one
  valid signature of a hash (one per nonce). The executor accepts every block with one
  pending transaction, and re-sealing changes the header hash \<open>h\<close> into \<open>h + 1\<close>.
\<close>

definition ex_sign :: "h512 \<Rightarrow> h256 \<Rightarrow> nat \<Rightarrow> Signature" where
  "ex_sign pub h nonce = of_nat (2 * (unat pub + 1000 * unat h) + nonce)"

definition ex_verify :: "h512 \<Rightarrow> Signature \<Rightarrow> h256 \<Rightarrow> bool" where
  "ex_verify pub s h = (unat s div 2 = unat pub + 1000 * unat h)"

definition ex_fields :: "PBFTMsg \<Rightarrow> h256" where
  "ex_fields m = height m + 16 * view m + 256 * idx m + 4096 * block_hash m"

definition ex_empty :: PrepareReq where
  "ex_empty = \<lparr>height = - 1, view = - 1, idx = - 1, timestamp = - 1, block_hash = 0,
               sig = 0, sig2 = 0, block = []\<rparr>"

definition ex_roster :: "NodeConnParams list" where
  "ex_roster =
     [\<lparr>sNodeId = ''n0'', iIdentityType = 1, iIdx = 0\<rparr>,
      \<lparr>sNodeId = ''n1'', iIdentityType = 1, iIdx = 1\<rparr>,
      \<lparr>sNodeId = ''n2'', iIdentityType = 1, iIdx = 2\<rparr>,
      \<lparr>sNodeId = ''n3'', iIdentityType = 1, iIdx = 3\<rparr>]"

definition ex_jsToPublic :: "string \<Rightarrow> h512" where
  "ex_jsToPublic s =
     (if s = ''n0'' then 100 else if s = ''n1'' then 101
      else if s = ''n2'' then 102 else if s = ''n3'' then 103 else 0)"

definition ex_env :: Env where
  "ex_env =
     \<lparr>Invalid256 = - 1, EN_ACCOUNT_TYPE_MINER = 1, kMaxChangeCycle = 20,
      emptyPrepareReq = ex_empty,
      u256_to_int = uint, u256_to_unsigned = ucast,
      getAccountType = (\<lambda>k. if 100 \<le> k \<and> k \<le> 103 then Some 1 else None),
      getMinerNum = 4,
      getIdx = (\<lambda>k. if 100 \<le> k \<and> k \<le> 103 then Some (ucast (k - 100)) else None),
      getPublicKey = (\<lambda>i. if i < 4 then Some (100 + ucast i) else None),
      getAllNodeConnInfo = (\<lambda>blk. ex_roster),
      jsToPublic = ex_jsToPublic,
      self_pub = 100,
      signHash = (\<lambda>h. ex_sign 100 h 0),
      verify = ex_verify,
      fieldsWithoutBlock = ex_fields,
      host_alive = True,
      isConnected = (\<lambda>k. True),
      checkBlockValid = (\<lambda>h b. Some \<lparr>exec_hash = h, pending_size = 1, resealed = Some (h + 1, b)\<rparr>),
      chain_has_block = (\<lambda>h. False),
      timeout_interval = (\<lambda>t c. ucast t),
      utcTime = 1000,
      clock_seconds = 1,
      view_iteration = sort\<rparr>"

text \<open>The header of block 9, the chain tip, and the header of a block 10.\<close>

definition ex_tip :: BlockHeader where
  "ex_tip = \<lparr>number = 9, hashWithoutSeal = 900, nodeList = [100, 101, 102, 103],
             header_valid = True\<rparr>"

definition ex_header :: BlockHeader where
  "ex_header = \<lparr>number = 10, hashWithoutSeal = 7, nodeList = [100, 101, 102, 103],
                header_valid = True\<rparr>"

text \<open>Miner 0 right after block 9 was reported: consensus on height 10, view 0.\<close>

definition ex_state :: PBFT where
  "ex_state =
     \<lparr>m_cfg_err = False, m_account_type = 1, m_node_num = 4, m_node_idx = 0, m_f = 1,
      m_miner_list = [100, 101, 102, 103],
      m_view = 0, m_to_view = 0, m_change_cycle = 0,
      m_leader_failed = False, m_empty_block_flag = False, m_omit_empty_block = True,
      m_view_timeout = 1000, m_consensus_block_number = 10, m_highest_block = ex_tip,
      m_last_consensus_time = 1000, m_last_sign_time = 0, m_last_exec_finish_time = 0,
      m_last_collect_time = 0,
      m_raw_prepare_cache = ex_empty, m_prepare_cache = ex_empty,
      m_committed_prepare_cache = ex_empty,
      m_future_prepare_cache = (- 1, ex_empty),
      m_sign_cache = [], m_commit_cache = [], m_recv_view_change_req = [],
      m_commitMap = [], effects = []\<rparr>"

text \<open>A vote as miner \<open>i\<close> builds it, with the nonce of its signature over the hash.\<close>

definition ex_vote :: "u256 \<Rightarrow> u256 \<Rightarrow> u256 \<Rightarrow> h256 \<Rightarrow> nat \<Rightarrow> PBFTMsg" where
  "ex_vote i h v bh nonce =
     (let m = \<lparr>height = h, view = v, idx = i, timestamp = 0, block_hash = bh,
               sig = ex_sign (100 + ucast i) bh nonce, sig2 = 0\<rparr>
      in m\<lparr>sig2 := ex_sign (100 + ucast i) (ex_fields m) 0\<rparr>)"

definition ex_proposal :: "u256 \<Rightarrow> u256 \<Rightarrow> u256 \<Rightarrow> h256 \<Rightarrow> bytes \<Rightarrow> PrepareReq" where
  "ex_proposal i h v bh blk =
     (let m = ex_vote i h v bh 0
      in \<lparr>height = height m, view = view m, idx = idx m, timestamp = timestamp m,
          block_hash = block_hash m, sig = sig m, sig2 = sig2 m, block = blk\<rparr>)"

text \<open>
  Runs of miner 0. In \<open>ex_round0\<close> miner 1, the leader of view 0, proposes block 10
  with hash 7 (re-sealed to hash 8), and the votes of miners 1 and 2 arrive. In
  \<open>ex_view_change\<close> the timeout fires and the view changes of miners 1 and 2 arrive.
  In \<open>ex_round1\<close> miner 2, the leader of view 1, proposes the same block again, and
  the votes of miners 2 and 3 arrive.
\<close>

definition ex_at :: "uint64 \<Rightarrow> call \<Rightarrow> Env \<times> call" where
  "ex_at t c = (ex_env\<lparr>utcTime := t\<rparr>, c)"

definition ex_round0_start :: "(Env \<times> call) list" where
  "ex_round0_start =
     [ex_at 1001 (OnMsg 1 (PrepareReqPacket (ex_proposal 1 10 0 7 [1, 2, 3]))),
      ex_at 1002 (OnMsg 1 (SignReqPacket (ex_vote 1 10 0 8 0))),
      ex_at 1003 (OnMsg 2 (SignReqPacket (ex_vote 2 10 0 8 0))),
      ex_at 1004 (OnMsg 1 (CommitReqPacket (ex_vote 1 10 0 8 0)))]"


definition ex_view_change_start :: "(Env \<times> call) list" where
  "ex_view_change_start =
     [ex_at 3000 CheckTimeout,
      ex_at 3001 (OnMsg 1 (ViewChangeReqPacket (ex_vote 1 9 1 900 0) True))]"

definition ex_view_change :: "(Env \<times> call) list" where
  "ex_view_change =
     ex_view_change_start @ [ex_at 3002 (OnMsg 2 (ViewChangeReqPacket (ex_vote 2 9 1 900 0) True))]"


text \<open>
  A round in which miner 1 alone votes. It leads view 0 and proposes block 10, then
  sends two sign votes and two commit votes for the re-sealed hash 8, each pair signed
  with its own key under two nonces. \<open>ex_sealed8\<close> is the header of the block that
  comes out, as a peer that imports the block hands it to \<open>checkBlockSign\<close>.
\<close>

definition ex_single_signer :: "(Env \<times> call) list" where
  "ex_single_signer =
     [ex_at 1001 (OnMsg 1 (PrepareReqPacket (ex_proposal 1 10 0 7 [1, 2, 3]))),
      ex_at 1002 (OnMsg 1 (SignReqPacket (ex_vote 1 10 0 8 0))),
      ex_at 1003 (OnMsg 1 (SignReqPacket (ex_vote 1 10 0 8 1))),
      ex_at 1004 (OnMsg 1 (CommitReqPacket (ex_vote 1 10 0 8 0))),
      ex_at 1005 (OnMsg 1 (CommitReqPacket (ex_vote 1 10 0 8 1)))]"

definition ex_sealed8 :: BlockHeader where
  "ex_sealed8 = \<lparr>number = 10, hashWithoutSeal = 8, nodeList = [100, 101, 102, 103],
                 header_valid = True\<rparr>"

text \<open>
  A block 10 with another hash than the one miner 0 prepared, as the chain reports it
  when the network agreed on it without miner 0.
\<close>

definition ex_other10 :: BlockHeader where
  "ex_other10 = \<lparr>number = 10, hashWithoutSeal = 555, nodeList = [100, 101, 102, 103],
                 header_valid = True\<rparr>"

text \<open>
  Miner 0 restarted at chain tip 12, where it leads view 0, with a committed prepare
  for height 13 restored from the backup store and no raw prepare.
\<close>

definition ex_restarted :: PBFT where
  "ex_restarted =
     ex_state\<lparr>m_highest_block :=
                 \<lparr>number = 12, hashWithoutSeal = 1200, nodeList = [100, 101, 102, 103],
                    header_valid = True\<rparr>,
               m_consensus_block_number := 13,
               m_committed_prepare_cache := ex_proposal 0 13 0 77 [4, 5, 6]\<rparr>"

text \<open>Block 12, after which miner 0 leads view 0.\<close>

definition ex_block12 :: BlockHeader where
  "ex_block12 = \<lparr>number = 12, hashWithoutSeal = 1200, nodeList = [100, 101, 102, 103],
                 header_valid = True\<rparr>"

section \<open>Observations on states\<close>

text \<open>
  The flag of a hash in \<open>m_commitMap\<close>, read as \<open>checkAndSave\<close> reads it (a missing
  entry counts as false), and the emissions of \<open>m_onSealGenerated\<close> for a hash among
  the effects of a state.
\<close>

definition commitTriggered :: "PBFT \<Rightarrow> h256 \<Rightarrow> bool" where
  "commitTriggered st h = (case map_of (m_commitMap st) h of None \<Rightarrow> False | Some b \<Rightarrow> b)"

fun is_seal_for :: "h256 \<Rightarrow> effect \<Rightarrow> bool" where
  "is_seal_for h (SealGenerated h' blk sig_list primary) = (h' = h)"
| "is_seal_for h e = False"

definition seals_for :: "h256 \<Rightarrow> PBFT \<Rightarrow> effect list" where
  "seals_for h st = filter (is_seal_for h) (effects st)"

text \<open>The number of votes cached for a hash, as the \<open>u256\<close> the engine compares.\<close>

definition have_sign :: "PBFT \<Rightarrow> h256 \<Rightarrow> u256" where
  "have_sign st h = size_u256 (map_at h (m_sign_cache st))"

definition have_commit :: "PBFT \<Rightarrow> h256 \<Rightarrow> u256" where
  "have_commit st h = size_u256 (map_at h (m_commit_cache st))"

text \<open>
  Two states between which nothing was emitted and no flag of \<open>m_commitMap\<close> changed.
\<close>

fun is_seal :: "effect \<Rightarrow> bool" where
  "is_seal (SealGenerated h blk sig_list primary) = True"
| "is_seal e = False"

definition quiet :: "PBFT \<Rightarrow> PBFT \<Rightarrow> bool" where
  "quiet st st' =
     (m_commitMap st' = m_commitMap st
      \<and> filter is_seal (effects st') = filter is_seal (effects st))"


text \<open>
  The state a completed view change leaves: the view is the target view, and the
  proposals, the votes and the flags are gone.
\<close>

definition view_change_done :: "Env \<Rightarrow> PBFT \<Rightarrow> bool" where
  "view_change_done env st =
     (m_view st = m_to_view st
      \<and> m_raw_prepare_cache st = emptyPrepareReq env
      \<and> m_prepare_cache st = emptyPrepareReq env
      \<and> m_sign_cache st = [] \<and> m_commit_cache st = [] \<and> m_commitMap st = [])"

section \<open>Arithmetic of the quorum\<close>

lemma unat_quorum_u256:
  fixes N :: u256
  assumes "N \<noteq> 0"
  shows "unat (N - (N - 1) div 3) = unat N - (unat N - 1) div 3"
proof -
  have n1: "1 \<le> N" using assms by (simp add: word_le_nat_alt unat_gt_0 Suc_le_eq)
  have a: "unat (N - 1) = unat N - 1" using n1 by (simp add: unat_sub)
  have b: "unat ((N - 1) div 3) = (unat N - 1) div 3"
    by (simp add: unat_div a)
  have "(N - 1) div 3 \<le> N"
    by (simp add: word_le_nat_alt b)
  then show ?thesis by (simp add: unat_sub b)
qed

lemma unat_quorum_size_t:
  fixes N :: uint64
  assumes "N \<noteq> 0"
  shows "unat (N - (N - 1) div 3) = unat N - (unat N - 1) div 3"
proof -
  have n1: "1 \<le> N" using assms by (simp add: word_le_nat_alt unat_gt_0 Suc_le_eq)
  have a: "unat (N - 1) = unat N - 1" using n1 by (simp add: unat_sub)
  have b: "unat ((N - 1) div 3) = (unat N - 1) div 3"
    by (simp add: unat_div a)
  have "(N - 1) div 3 \<le> N"
    by (simp add: word_le_nat_alt b)
  then show ?thesis by (simp add: unat_sub b)
qed

lemma int_quorum:
  "0 < n \<Longrightarrow> int (n - (n - 1) div 3) = int n - (int n - 1) div 3"
proof -
  assume n: "0 < n"
  have a: "int (n - 1) = int n - 1" using n by (simp add: of_nat_diff)
  have b: "(n - 1) div 3 \<le> n" by (simp add: div_le_dividend le_diff_conv trans_le_add1)
  have "int (n - (n - 1) div 3) = int n - int ((n - 1) div 3)" using b by (simp add: of_nat_diff)
  also have "int ((n - 1) div 3) = (int n - 1) div 3" using a by (simp add: zdiv_int)
  finally show ?thesis .
qed

lemma unat_size_t: "n < 2 ^ 64 \<Longrightarrow> unat (size_t n) = n"
  by (simp add: size_t_def unat_of_nat)

lemma enough_signs_iff:
  assumes "miner_list \<noteq> []" "length miner_list < 2 ^ 64" "length sign_list < 2 ^ 64"
  shows "enough_signs sign_list miner_list \<longleftrightarrow>
         length miner_list - (length miner_list - 1) div 3 \<le> length sign_list"
proof -
  have nz: "size_t (length miner_list) \<noteq> 0"
    using assms unat_size_t[of "length miner_list"] by (metis length_0_conv unat_0)
  show ?thesis
    using assms
    by (simp add: enough_signs_def word_less_nat_alt unat_quorum_size_t[OF nz] unat_size_t not_less)
qed

lemma quorum_nat:
  assumes "0 < (n::nat)"
  shows "2 * ((n - 1) div 3) + 1 \<le> n - (n - 1) div 3"
    and "(n - (n - 1) div 3 = 2 * ((n - 1) div 3) + 1) = (n mod 3 = 1)"
proof -
  define f where "f = (n - 1) div 3"
  define r where "r = (n - 1) mod 3"
  have r3: "r < 3" by (simp add: r_def)
  have "n - 1 = 3 * f + r" by (simp add: f_def r_def)
  then have n: "n = 3 * f + (r + 1)" using assms by simp
  have m: "n mod 3 = (r + 1) mod 3" by (subst n) simp
  show "2 * ((n - 1) div 3) + 1 \<le> n - (n - 1) div 3"
    unfolding f_def[symmetric] using n by simp
  have "r = 0 \<or> r = 1 \<or> r = 2" using r3 by auto
  then show "(n - (n - 1) div 3 = 2 * ((n - 1) div 3) + 1) = (n mod 3 = 1)"
    unfolding f_def[symmetric] m using n by auto
qed

text \<open>
  C5 (as amended). For a roster of \<open>N \<ge> 1\<close> miners, \<open>resetConfig\<close> stores
  \<open>f = \<lfloor>(N - 1) / 3\<rfloor>\<close> and the quorum is \<open>N - f\<close>. This is at least \<open>2f + 1\<close>, and
  equal to \<open>2f + 1\<close> exactly when \<open>N mod 3 = 1\<close>. The block-signature verifier accepts
  a signature count exactly when it is at least \<open>N - \<lfloor>(N - 1) / 3\<rfloor>\<close>, for \<open>N\<close> the
  size of its miner list.
\<close>

theorem quorum_arithmetic:
  assumes "N \<noteq> 0" and "miner_list \<noteq> []" and "length miner_list < 2 ^ 64"
    and "length sign_list < 2 ^ 64"
  shows "unat (m_f (reconfigure env N i st)) = (unat N - 1) div 3
       \<and> unat (quorum (reconfigure env N i st)) = unat N - (unat N - 1) div 3
       \<and> 2 * unat (m_f (reconfigure env N i st)) + 1 \<le> unat (quorum (reconfigure env N i st))
       \<and> (unat (quorum (reconfigure env N i st)) = 2 * unat (m_f (reconfigure env N i st)) + 1
            \<longleftrightarrow> unat N mod 3 = 1)
       \<and> (enough_signs sign_list miner_list
            \<longleftrightarrow> length miner_list - (length miner_list - 1) div 3 \<le> length sign_list)"
proof -
  have pos: "0 < unat N" using assms(1) by (simp add: unat_gt_0)
  have n1: "1 \<le> N" using assms(1) by (simp add: word_le_nat_alt unat_gt_0 Suc_le_eq)
  have f: "unat (m_f (reconfigure env N i st)) = (unat N - 1) div 3"
    using n1 by (simp add: reconfigure_def unat_div unat_sub)
  have q: "unat (quorum (reconfigure env N i st)) = unat N - (unat N - 1) div 3"
    using unat_quorum_u256[OF assms(1)] by (simp add: quorum_def reconfigure_def)
  show ?thesis
    unfolding f q
    using quorum_nat[OF pos] enough_signs_iff[OF assms(2,3,4)] by simp
qed

theorem quorum_arithmetic_witness:
  "(4::u256) \<noteq> 0 \<and> length [100, 101, 102, 103 :: h512] < 2 ^ 64
   \<and> unat (quorum (reconfigure ex_env 4 0 ex_state)) = 3
   \<and> unat (m_f (reconfigure ex_env 4 0 ex_state)) = 1
   \<and> enough_signs [(0, 1), (1, 2), (2, 3)] [100, 101, 102, 103]
   \<and> \<not> enough_signs [(0, 1), (1, 2)] [100, 101, 102, 103]"
  using quorum_arithmetic[of 4 "[100, 101, 102, 103]" "[(0, 1), (1, 2), (2, 3)]" ex_env 0 ex_state]
    quorum_arithmetic[of 4 "[100, 101, 102, 103]" "[(0, 1), (1, 2)]" ex_env 0 ex_state]
  by simp

text \<open>
  C5 as stated fails: with two miners the fault bound is 0 and the quorum is 2, which
  is not \<open>2f + 1 = 1\<close>.
\<close>

theorem quorum_not_2f_plus_1:
  "unat (quorum (reconfigure ex_env 2 0 ex_state))
     \<noteq> 2 * unat (m_f (reconfigure ex_env 2 0 ex_state)) + 1"
  by (simp add: quorum_def reconfigure_def)

section \<open>The block-signature verifier\<close>

lemma check_signatures_iff:
  "check_signatures env miner_list h sign_list \<longleftrightarrow>
     (\<forall>item \<in> set sign_list. unat (fst item) < length miner_list
        \<and> verify env (miner_list ! unat (fst item)) (snd item) h)"
  by (induction sign_list) auto

lemma length_getMinerList_fill:
  "length (snd (getMinerList_fill env n ps ml)) = length ml"
  by (induction ps arbitrary: ml) (auto simp: Let_def)

lemma length_getMinerList:
  "length (snd (getMinerList env blk ml)) < 2 ^ 32"
  by (simp add: getMinerList_def Let_def length_getMinerList_fill resize_def)

lemma no_miners_rejected:
  "\<not> (enough_signs sign_list [] \<and> check_signatures env [] h sign_list)"
proof (cases sign_list)
  case Nil
  then show ?thesis by (simp add: enough_signs_def size_t_def word_gt_0)
next
  case (Cons a list)
  then show ?thesis by simp
qed

text \<open>
  C9. \<open>checkBlockSign(header, sigList)\<close> returns true if and only if the miner list
  fetched for \<open>height - 1\<close> exists and equals the header's node list, the number of
  signatures is at least \<open>N - \<lfloor>(N - 1) / 3\<rfloor>\<close> for \<open>N\<close> the size of the miner list
  (the floor taken over the integers, so that the bound is 1 for an empty list), every
  listed index is a valid index into the miner list, and every pair verifies against
  the key at its index over the header's hash without seal. The signature list is a
  vector, so its size fits a \<open>size_t\<close>.
\<close>

theorem checkBlockSign_iff:
  assumes "length sign_list < 2 ^ 64"
  shows "checkBlockSign env header sign_list \<longleftrightarrow>
     (\<exists>miner_list.
        getMinerList env (u256_to_int env (number header - 1)) [] = (True, miner_list)
        \<and> nodeList header = miner_list
        \<and> int (length miner_list) - (int (length miner_list) - 1) div 3 \<le> int (length sign_list)
        \<and> (\<forall>item \<in> set sign_list.
              unat (fst item) < length miner_list
              \<and> verify env (miner_list ! unat (fst item)) (snd item) (hashWithoutSeal header)))"
proof -
  obtain ok ml where r: "getMinerList env (u256_to_int env (number header - 1)) [] = (ok, ml)"
    by (cases "getMinerList env (u256_to_int env (number header - 1)) []")
  have len: "length ml < 2 ^ 64"
  proof -
    have "length ml < 2 ^ 32"
      using length_getMinerList[of env "u256_to_int env (number header - 1)" "[]"] r by simp
    also have "(2::nat) ^ 32 < 2 ^ 64" by simp
    finally show ?thesis .
  qed
  have cbs: "checkBlockSign env header sign_list \<longleftrightarrow>
       (ok \<and> nodeList header = ml \<and> enough_signs sign_list ml
          \<and> check_signatures env ml (hashWithoutSeal header) sign_list)"
    using r by (cases ok) (simp_all add: checkBlockSign_def)
  have e: "enough_signs sign_list ml \<and> check_signatures env ml (hashWithoutSeal header) sign_list
       \<longleftrightarrow> int (length ml) - (int (length ml) - 1) div 3 \<le> int (length sign_list)
          \<and> (\<forall>item \<in> set sign_list.
              unat (fst item) < length ml
              \<and> verify env (ml ! unat (fst item)) (snd item) (hashWithoutSeal header))"
  proof (cases "ml = []")
    case True
    have L: "\<not> (enough_signs sign_list [] \<and> check_signatures env [] (hashWithoutSeal header) sign_list)"
      by (rule no_miners_rejected)
    have R: "\<not> (int (length ([]::h512 list)) - (int (length ([]::h512 list)) - 1) div 3
                  \<le> int (length sign_list)
              \<and> (\<forall>item \<in> set sign_list.
                    unat (fst item) < length ([]::h512 list)
                    \<and> verify env ([] ! unat (fst item)) (snd item) (hashWithoutSeal header)))"
      by (cases sign_list) auto
    show ?thesis
      unfolding True using L R by blast
  next
    case False
    have "0 < length ml" using False by simp
    then have "int (length ml - (length ml - 1) div 3)
               = int (length ml) - (int (length ml) - 1) div 3"
      by (rule int_quorum)
    then have "enough_signs sign_list ml \<longleftrightarrow>
             int (length ml) - (int (length ml) - 1) div 3 \<le> int (length sign_list)"
      using enough_signs_iff[OF False len assms] by linarith
    then show ?thesis
      by (simp add: check_signatures_iff)
  qed
  show ?thesis
    unfolding cbs e using r by auto
qed

lemma replicate_4: "replicate 4 x = [x, x, x, x]"
  by (simp add: numeral_eq_Suc)

lemma list4_update:
  "[a, b, c, d][0 := x] = [x, b, c, d]" "[a, b, c, d][1 := x] = [a, x, c, d]"
  "[a, b, c, d][2 := x] = [a, b, x, d]" "[a, b, c, d][3 := x] = [a, b, c, x]"
  by (simp_all add: numeral_eq_Suc)

lemma ex_miner_list:
  "getMinerList ex_env blk [] = (True, [100, 101, 102, 103])"
  by (simp add: getMinerList_def ex_env_def ex_roster_def ex_jsToPublic_def resize_def Let_def
      replicate_4 list4_update)

theorem checkBlockSign_iff_witness:
  "length [(0 :: u256, ex_sign 100 7 0), (1, ex_sign 101 7 0), (2, ex_sign 102 7 1)] < 2 ^ 64
   \<and> checkBlockSign ex_env ex_header [(0, ex_sign 100 7 0), (1, ex_sign 101 7 0), (2, ex_sign 102 7 1)]
   \<and> \<not> checkBlockSign ex_env ex_header [(0, ex_sign 100 7 0), (1, ex_sign 101 7 0), (2, ex_sign 103 7 1)]"
proof -
  have len: "length [(0 :: u256, ex_sign 100 7 0), (1, ex_sign 101 7 0), (2, ex_sign 102 7 1)] < 2 ^ 64"
    by simp
  have len2: "length [(0 :: u256, ex_sign 100 7 0), (1, ex_sign 101 7 0), (2, ex_sign 103 7 1)] < 2 ^ 64"
    by simp
  have v: "verify ex_env = ex_verify" "hashWithoutSeal ex_header = 7"
    "nodeList ex_header = [100, 101, 102, 103]"
    by (simp_all add: ex_env_def ex_header_def)
  show ?thesis
    using checkBlockSign_iff[OF len, of ex_env ex_header]
      checkBlockSign_iff[OF len2, of ex_env ex_header]
    by (simp add: ex_miner_list v ex_verify_def ex_sign_def)
qed

section \<open>Running the engine on the four-miner deployment\<close>

text \<open>
  The definitions to unfold when a call is evaluated on a concrete state, and the
  facts that decide comparisons of machine words with 0, 1 and \<open>- 1\<close>.
\<close>

lemmas ex_defs = ex_env_def ex_state_def ex_tip_def ex_empty_def ex_sign_def ex_verify_def
  ex_fields_def ex_vote_def ex_proposal_def ex_at_def ex_other10_def ex_block12_def
  ex_restarted_def
  ex_roster_def ex_jsToPublic_def

lemmas word_cmp = word_le_nat_alt word_less_nat_alt unsigned_minus_1_eq_mask mask_eq_exp_minus_1

lemmas engine_defs = handleMsg_def handlePrepareMsg_def isExistPrepare_def getLeader_def
  checkSign_def PBFTMsg.truncate_def acceptPrepare_def addRawPrepare_def new_prepare_def
  new_msg_def addPrepareReq_def drop_other_views_def broadcastSignReq_def broadcastMsg_def
  addSignReq_def map_at_def checkAndCommit_def map_touch_def map_erase_def size_u256_def
  quorum_def handleSignMsg_def isExistSign_def checkAndSave_def broadcastCommitReq_def
  addCommitReq_def handleCommitMsg_def isExistCommit_def checkTimeout_def
  broadcastViewChangeReq_def checkAndChangeView_def stale_view_change_def
  handleViewChangeMsg_def isExistViewChange_def fastViewChange_def reportBlock_def
  delViewChange_def delCache_def resetConfig_def reconfigure_def shouldSeal_def
  reHandlePrepareReq_def recvFutureBlock_def changeViewForEmptyBlockWithoutLock_def
  seals_for_def commitTriggered_def have_sign_def have_commit_def

lemma run_append: "run (xs @ ys) st = run ys (run xs st)"
  by (induction xs arbitrary: st) auto

lemma map_of_map_put: "map_of (map_put k v m) k' = (if k' = k then Some v else map_of m k')"
  by (induction m) auto

lemma map_at_map_touch: "map_at h (map_touch k c) = map_at h c"
  by (auto simp: map_at_def map_touch_def split: option.splits if_splits)

lemma map_at_map_put: "map_at h (map_put k v c) = (if h = k then v else map_at h c)"
  by (simp add: map_at_def map_of_map_put)

lemma checkAndSave_cases:
  "checkAndSave env st =
     (let h = block_hash (m_prepare_cache st);
          st1 = st\<lparr>m_sign_cache := map_touch h (m_sign_cache st),
                   m_commit_cache := map_touch h (m_commit_cache st)\<rparr>
      in if quorum st \<le> have_sign st h \<and> quorum st \<le> have_commit st h \<and> \<not> commitTriggered st h
         then
           (let st2 = st1\<lparr>m_commitMap := map_put h True (m_commitMap st)\<rparr>
            in if view (m_prepare_cache st) = m_view st
                  \<and> number (m_highest_block st) < height (m_prepare_cache st)
               then st2\<lparr>effects := effects st @
                      [SealGenerated h (block (m_prepare_cache st))
                         (map (\<lambda>item. (idx (snd item), fst item)) (map_at h (m_commit_cache st)))
                         (idx (m_prepare_cache st) = m_node_idx st)]\<rparr>
               else st2)
         else st1)"
  by (simp add: checkAndSave_def Let_def quorum_def have_sign_def have_commit_def
      commitTriggered_def map_at_map_touch)


section \<open>Finalisation: \<open>checkAndSave\<close>\<close>

text \<open>
  C3 (as amended). \<open>checkAndSave\<close> sets \<open>commitTriggered[h]\<close> for the prepare's
  hash \<open>h\<close> exactly when the sign votes and the commit votes of \<open>h\<close> both reach the
  quorum (if it was not set before), whether or not the view and height tests pass; no
  other flag changes. It emits a sealed block for \<open>h\<close> exactly when, in addition, the
  flag was not set, \<open>prepare.view = view\<close> and \<open>prepare.height > chainTip\<close>. So a set
  flag does not tell that a block was emitted.
\<close>

theorem checkAndSave_flag:
  "commitTriggered (checkAndSave env st) h =
     (commitTriggered st h
      \<or> (h = block_hash (m_prepare_cache st)
         \<and> quorum st \<le> have_sign st h \<and> quorum st \<le> have_commit st h))
   \<and> (seals_for h (checkAndSave env st) \<noteq> seals_for h st) =
     (h = block_hash (m_prepare_cache st)
      \<and> quorum st \<le> have_sign st h \<and> quorum st \<le> have_commit st h
      \<and> \<not> commitTriggered st h
      \<and> view (m_prepare_cache st) = m_view st
      \<and> number (m_highest_block st) < height (m_prepare_cache st))"
  by (auto simp: checkAndSave_cases Let_def commitTriggered_def seals_for_def map_of_map_put)

theorem checkAndSave_flag_witness:
  "commitTriggered
     (checkAndSave (ex_env\<lparr>utcTime := 1005\<rparr>)
        (addCommitReq (ex_vote 2 10 0 8 0) (run ex_round0_start ex_state))) 8
   \<and> seals_for 8
        (checkAndSave (ex_env\<lparr>utcTime := 1005\<rparr>)
           (addCommitReq (ex_vote 2 10 0 8 0) (run ex_round0_start ex_state)))
      \<noteq> seals_for 8 (addCommitReq (ex_vote 2 10 0 8 0) (run ex_round0_start ex_state))"
  using checkAndSave_flag[of "ex_env\<lparr>utcTime := 1005\<rparr>"
      "addCommitReq (ex_vote 2 10 0 8 0) (run ex_round0_start ex_state)" 8]
  by (simp add: ex_round0_start_def ex_defs engine_defs word_cmp Let_def cong: let_weak_cong)

text \<open>
  C3 as stated fails. Miner 0 has prepared block 10 (hash 8) and holds three sign
  votes and two commit votes when the chain reports another block 10. The third commit
  vote then makes \<open>checkAndSave\<close> set the flag of hash 8, although the height test
  fails and nothing is emitted.
\<close>

theorem flag_set_without_emission:
  "\<not> commitTriggered
        (addCommitReq (ex_vote 2 10 0 8 0)
           (run (ex_round0_start @ [ex_at 1010 (ReportBlock ex_other10)]) ex_state)) 8
   \<and> \<not> number (m_highest_block
        (addCommitReq (ex_vote 2 10 0 8 0)
           (run (ex_round0_start @ [ex_at 1010 (ReportBlock ex_other10)]) ex_state)))
        < height (m_prepare_cache
        (addCommitReq (ex_vote 2 10 0 8 0)
           (run (ex_round0_start @ [ex_at 1010 (ReportBlock ex_other10)]) ex_state)))
   \<and> commitTriggered
        (checkAndSave (ex_env\<lparr>utcTime := 1011\<rparr>)
           (addCommitReq (ex_vote 2 10 0 8 0)
              (run (ex_round0_start @ [ex_at 1010 (ReportBlock ex_other10)]) ex_state))) 8
   \<and> seals_for 8
        (checkAndSave (ex_env\<lparr>utcTime := 1011\<rparr>)
           (addCommitReq (ex_vote 2 10 0 8 0)
              (run (ex_round0_start @ [ex_at 1010 (ReportBlock ex_other10)]) ex_state))) = []"
  by (simp add: ex_round0_start_def ex_defs engine_defs word_cmp Let_def cong: let_weak_cong)

text \<open>
  C4. Whenever \<open>checkAndSave\<close> emits a sealed block, the block is the one of the
  prepare, and the signature list appended as its fifth field holds exactly one pair
  \<open>(idx, sig)\<close> for every entry of \<open>commitCache[prepare.blockHash]\<close>, however many
  entries there are.
\<close>

theorem checkAndSave_sig_list:
  assumes "effects (checkAndSave env st) \<noteq> effects st"
  shows "effects (checkAndSave env st) =
           effects st @
             [SealGenerated (block_hash (m_prepare_cache st)) (block (m_prepare_cache st))
                (map (\<lambda>item. (idx (snd item), fst item))
                   (map_at (block_hash (m_prepare_cache st)) (m_commit_cache st)))
                (idx (m_prepare_cache st) = m_node_idx st)]
         \<and> length (map_at (block_hash (m_prepare_cache st)) (m_commit_cache st))
             = length (map (\<lambda>item. (idx (snd item), fst item))
                   (map_at (block_hash (m_prepare_cache st)) (m_commit_cache st)))"
  using assms by (simp add: checkAndSave_cases Let_def split: if_splits)

text \<open>With four commit votes cached, one more than the quorum, all four are in the list.\<close>

theorem checkAndSave_sig_list_witness:
  "effects (checkAndSave (ex_env\<lparr>utcTime := 1005\<rparr>)
      (addCommitReq (ex_vote 3 10 0 8 0)
         (addCommitReq (ex_vote 2 10 0 8 0) (run ex_round0_start ex_state))))
     \<noteq> effects (addCommitReq (ex_vote 3 10 0 8 0)
         (addCommitReq (ex_vote 2 10 0 8 0) (run ex_round0_start ex_state)))
   \<and> last (effects (checkAndSave (ex_env\<lparr>utcTime := 1005\<rparr>)
      (addCommitReq (ex_vote 3 10 0 8 0)
         (addCommitReq (ex_vote 2 10 0 8 0) (run ex_round0_start ex_state)))))
     = SealGenerated 8 [1, 2, 3] [(0, 16200), (1, 16202), (2, 16204), (3, 16206)] False"
proof -
  have e: "effects (checkAndSave (ex_env\<lparr>utcTime := 1005\<rparr>)
      (addCommitReq (ex_vote 3 10 0 8 0)
         (addCommitReq (ex_vote 2 10 0 8 0) (run ex_round0_start ex_state))))
     \<noteq> effects (addCommitReq (ex_vote 3 10 0 8 0)
         (addCommitReq (ex_vote 2 10 0 8 0) (run ex_round0_start ex_state)))"
    by (simp add: ex_round0_start_def ex_defs engine_defs word_cmp Let_def cong: let_weak_cong)
  show ?thesis
    using e checkAndSave_sig_list[OF e]
    by (simp add: ex_round0_start_def ex_defs engine_defs word_cmp Let_def cong: let_weak_cong)
qed

section \<open>Votes for a block that is not the prepared one\<close>

text \<open>
  C8 (as amended). A Sign whose block hash differs from the prepare's is cached in the
  sign cache exactly when it is not a duplicate, not from this node, its height is at
  least the consensus height or its view is above the current view, and its signatures
  verify; otherwise the state is unchanged. The same holds for a Commit and the commit
  cache.
\<close>

theorem future_vote_cached:
  assumes "block_hash (m_prepare_cache st) \<noteq> block_hash req"
  shows "handleSignMsg env from req st =
           (if \<not> isExistSign st req \<and> idx req \<noteq> m_node_idx st
               \<and> (m_consensus_block_number st \<le> height req \<or> m_view st < view req)
               \<and> checkSign env req
            then st\<lparr>m_sign_cache :=
                      map_put (block_hash req)
                        (map_put (sig req) req (map_at (block_hash req) (m_sign_cache st)))
                        (m_sign_cache st)\<rparr>
            else st)
       \<and> handleCommitMsg env from req st =
           (if \<not> isExistCommit st req \<and> idx req \<noteq> m_node_idx st
               \<and> (m_consensus_block_number st \<le> height req \<or> m_view st < view req)
               \<and> checkSign env req
            then st\<lparr>m_commit_cache :=
                      map_put (block_hash req)
                        (map_put (sig req) req (map_at (block_hash req) (m_commit_cache st)))
                        (m_commit_cache st)\<rparr>
            else st)"
  using assms
  by (simp add: handleSignMsg_def handleCommitMsg_def addSignReq_def addCommitReq_def Let_def)

theorem future_vote_cached_witness:
  "block_hash (m_prepare_cache ex_state) \<noteq> block_hash (ex_vote 1 11 0 8 0)
   \<and> m_sign_cache (handleSignMsg ex_env 1 (ex_vote 1 11 0 8 0) ex_state)
       = [(8, [(sig (ex_vote 1 11 0 8 0), ex_vote 1 11 0 8 0)])]
   \<and> handleCommitMsg ex_env 1 (ex_vote 1 9 0 8 0) ex_state = ex_state"
  using future_vote_cached[of ex_state "ex_vote 1 11 0 8 0" ex_env 1]
    future_vote_cached[of ex_state "ex_vote 1 9 0 8 0" ex_env 1]
  by (simp add: ex_defs isExistSign_def isExistCommit_def checkSign_def PBFTMsg.truncate_def
      map_at_def word_cmp Let_def)

text \<open>
  C8 as stated fails: a vote of the current consensus height and the current view
  (neither is above) for a hash that is not the prepare's is cached, by both handlers.
\<close>

theorem current_height_vote_cached:
  "block_hash (ex_vote 1 10 0 8 0) \<noteq> block_hash (m_prepare_cache ex_state)
   \<and> \<not> m_consensus_block_number ex_state < height (ex_vote 1 10 0 8 0)
   \<and> \<not> m_view ex_state < view (ex_vote 1 10 0 8 0)
   \<and> m_sign_cache (handleSignMsg ex_env 1 (ex_vote 1 10 0 8 0) ex_state)
       = [(8, [(sig (ex_vote 1 10 0 8 0), ex_vote 1 10 0 8 0)])]
   \<and> m_commit_cache (handleCommitMsg ex_env 1 (ex_vote 1 10 0 8 0) ex_state)
       = [(8, [(sig (ex_vote 1 10 0 8 0), ex_vote 1 10 0 8 0)])]"
  by (simp add: ex_defs engine_defs word_cmp Let_def cong: let_weak_cong)


section \<open>Keys of the vote caches\<close>

text \<open>
  C6. The sign cache and the commit cache are keyed, under the block hash, by the
  signature \<open>sig.hex()\<close> of the vote and not by the index of its signer
  (\<open>addSignReq\<close>, \<open>addCommitReq\<close>, \<open>isExistSign\<close>, \<open>isExistCommit\<close>), unlike the
  view-change cache, which is keyed by \<open>idx\<close>. A vote is a duplicate only if its
  signature is cached already, so a miner that signs one hash under two nonces has two
  entries, and each entry is counted. On the run \<open>ex_single_signer\<close> miner 1 has two
  entries under hash 8 in the sign cache and two in the commit cache; with the vote of
  miner 0 itself they reach the quorum of three, and miner 0 emits block 10 with a
  signature list that names two signers, miner 1 twice; \<open>checkBlockSign\<close> accepts this
  list for the block. Sending the first sign vote again changes nothing: that one is the
  duplicate the handler knows.
\<close>

theorem single_signer_reaches_quorum:
  "length (filter (\<lambda>e. idx (snd e) = 1)
     (map_at 8 (m_sign_cache (run ex_single_signer ex_state)))) = 2
   \<and> length (filter (\<lambda>e. idx (snd e) = 1)
     (map_at 8 (m_commit_cache (run ex_single_signer ex_state)))) = 2
   \<and> quorum ex_state = 3
   \<and> seals_for 8 (run ex_single_signer ex_state)
       = [SealGenerated 8 [1, 2, 3] [(0, 16200), (1, 16202), (1, 16203)] False]
   \<and> checkBlockSign ex_env ex_sealed8 [(0, 16200), (1, 16202), (1, 16203)]
   \<and> handleSignMsg ex_env 1 (ex_vote 1 10 0 8 0) (run ex_single_signer ex_state)
       = run ex_single_signer ex_state"
proof -
  have signs: "length (filter (\<lambda>e. idx (snd e) = 1)
       (map_at 8 (m_sign_cache (run ex_single_signer ex_state)))) = 2"
    by (simp add: ex_single_signer_def ex_defs engine_defs word_cmp Let_def cong: let_weak_cong)
  have commits: "length (filter (\<lambda>e. idx (snd e) = 1)
       (map_at 8 (m_commit_cache (run ex_single_signer ex_state)))) = 2"
    by (simp add: ex_single_signer_def ex_defs engine_defs word_cmp Let_def cong: let_weak_cong)
  have q: "quorum ex_state = 3"
    by (simp add: quorum_def ex_state_def)
  have emitted: "seals_for 8 (run ex_single_signer ex_state)
       = [SealGenerated 8 [1, 2, 3] [(0, 16200), (1, 16202), (1, 16203)] False]"
    by (simp add: ex_single_signer_def ex_defs engine_defs word_cmp Let_def cong: let_weak_cong)
  have v: "verify ex_env = ex_verify"
    by (simp add: ex_env_def)
  have accepted: "checkBlockSign ex_env ex_sealed8 [(0, 16200), (1, 16202), (1, 16203)]"
    by (simp add: checkBlockSign_def ex_miner_list ex_sealed8_def enough_signs_def size_t_def
        v ex_verify_def word_cmp)
  have known: "isExistSign (run ex_single_signer ex_state) (ex_vote 1 10 0 8 0)"
    by (simp add: ex_single_signer_def ex_defs engine_defs word_cmp Let_def cong: let_weak_cong)
  have dropped: "handleSignMsg ex_env 1 (ex_vote 1 10 0 8 0) (run ex_single_signer ex_state)
       = run ex_single_signer ex_state"
    by (simp only: handleSignMsg_def known if_True)
  show ?thesis
    using signs commits q emitted accepted dropped by (simp only: simp_thms)
qed


section \<open>The raw prepare and the prepare\<close>











section \<open>The leader-failed flag\<close>

text \<open>
  Which calls keep \<open>m_leader_failed\<close>: everything but a completed view change and a
  report of a block at or above the consensus height.
\<close>

lemma checkAndSave_leader:
  "m_leader_failed (checkAndSave env st) = m_leader_failed st"
  by (simp add: checkAndSave_cases Let_def)

lemma checkAndCommit_leader:
  "m_leader_failed (checkAndCommit env st) = m_leader_failed st"
  by (simp add: checkAndCommit_def Let_def checkAndSave_leader broadcastCommitReq_def
      broadcastMsg_def addCommitReq_def)

lemma acceptPrepare_leader:
  "m_leader_failed (acceptPrepare env req st) = m_leader_failed st"
  by (simp add: acceptPrepare_def Let_def addRawPrepare_def addPrepareReq_def
      changeViewForEmptyBlockWithoutLock_def checkAndCommit_leader broadcastSignReq_def
      broadcastMsg_def addSignReq_def split: option.splits)

lemma handlePrepareMsg_leader:
  "m_leader_failed (handlePrepareMsg env from req self st) = m_leader_failed st"
  by (simp add: handlePrepareMsg_def Let_def recvFutureBlock_def acceptPrepare_leader)

lemma handleSignMsg_leader:
  "m_leader_failed (handleSignMsg env from req st) = m_leader_failed st"
  by (simp add: handleSignMsg_def Let_def checkAndCommit_leader addSignReq_def)

lemma handleCommitMsg_leader:
  "m_leader_failed (handleCommitMsg env from req st) = m_leader_failed st"
  by (simp add: handleCommitMsg_def Let_def checkAndSave_leader addCommitReq_def)

lemma checkAndChangeView_leader:
  "m_leader_failed (checkAndChangeView env st) \<Longrightarrow> m_leader_failed st"
  "m_leader_failed st \<Longrightarrow> \<not> m_leader_failed (checkAndChangeView env st)
     \<Longrightarrow> view_change_done env (checkAndChangeView env st)"
  by (auto simp: checkAndChangeView_def Let_def view_change_done_def split: if_splits)

lemma fastViewChange_leader:
  "m_leader_failed (fastViewChange env st) = m_leader_failed st"
  by (simp add: fastViewChange_def Let_def split: prod.splits)

lemma handleViewChangeMsg_leader:
  assumes "m_leader_failed st" "\<not> m_leader_failed (handleViewChangeMsg env from req s st)"
  shows "view_change_done env (handleViewChangeMsg env from req s st)"
proof -
  let ?st1 = "if view req + 1 < m_to_view st \<and> idx req = from
                   \<and> m_account_type st = EN_ACCOUNT_TYPE_MINER env \<and> s
                then st\<lparr>effects := effects st @
                       [SendViewChangeReq
                          (new_msg env (number (m_highest_block st)) (m_to_view st)
                             (m_node_idx st) (hashWithoutSeal (m_highest_block st)))]\<rparr>
                else st"
  let ?st2 = "?st1\<lparr>m_recv_view_change_req :=
                            map_put (view req)
                              (map_put (idx req) req (map_at (view req) (m_recv_view_change_req ?st1)))
                              (m_recv_view_change_req ?st1)\<rparr>"
  have l: "m_leader_failed ?st1" "m_leader_failed ?st2" using assms(1) by simp_all
  have "handleViewChangeMsg env from req s st = st
      \<or> handleViewChangeMsg env from req s st = ?st1
      \<or> handleViewChangeMsg env from req s st = checkAndChangeView env ?st2
      \<or> handleViewChangeMsg env from req s st = fastViewChange env ?st2"
    unfolding handleViewChangeMsg_def Let_def by (simp split: if_splits)
  then show ?thesis
    using assms l checkAndChangeView_leader(2)[of ?st2 env]
    by (auto simp: fastViewChange_leader simp del: split_paired_All)
qed

lemma checkTimeout_leader:
  assumes "m_leader_failed st" "\<not> m_leader_failed (checkTimeout env st)"
  shows "view_change_done env (checkTimeout env st)"
proof -
  let ?st1 = "st\<lparr>m_leader_failed := True, m_to_view := m_to_view st + 1,
                        m_change_cycle := min (m_change_cycle st + 1) (kMaxChangeCycle env),
                        m_last_consensus_time := utcTime env\<rparr>"
  let ?st2 = "?st1\<lparr>m_recv_view_change_req :=
                          map_put (m_to_view ?st1)
                            (filter (\<lambda>x. \<not> stale_view_change (m_highest_block ?st1) (snd x))
                               (map_at (m_to_view ?st1) (m_recv_view_change_req ?st1)))
                            (m_recv_view_change_req ?st1)\<rparr>"
  let ?r = "broadcastViewChangeReq env ?st2"
  have b: "m_leader_failed (snd ?r)"
    by (simp add: broadcastViewChangeReq_def broadcastMsg_def Let_def)
  have "checkTimeout env st = st \<or> checkTimeout env st = snd ?r
      \<or> checkTimeout env st = (checkAndChangeView env (snd ?r))
            \<lparr>effects := effects (checkAndChangeView env (snd ?r)) @ [OnViewChange]\<rparr>"
    unfolding checkTimeout_def Let_def by (simp split: if_splits)
  then show ?thesis
    using assms b checkAndChangeView_leader(2)[OF b, of env]
    by (auto simp: view_change_done_def)
qed


lemma handleMsg_leader:
  assumes "m_leader_failed st" "\<not> m_leader_failed (handleMsg env from p st)"
  shows "(\<exists>r s. p = ViewChangeReqPacket r s) \<and> view_change_done env (handleMsg env from p st)"
proof (cases p)
  case (PrepareReqPacket r)
  then show ?thesis using assms
    by (simp add: handleMsg_def Let_def broadcastMsg_def handlePrepareMsg_leader split: if_splits)
next
  case (SignReqPacket r)
  then show ?thesis using assms
    by (simp add: handleMsg_def Let_def broadcastMsg_def handleSignMsg_leader split: if_splits)
next
  case (CommitReqPacket r)
  then show ?thesis using assms
    by (simp add: handleMsg_def Let_def broadcastMsg_def handleCommitMsg_leader split: if_splits)
next
  case (ViewChangeReqPacket r s)
  have "\<not> m_leader_failed (handleViewChangeMsg env from r s st)"
    using assms(2) ViewChangeReqPacket
    by (simp add: handleMsg_def Let_def broadcastMsg_def split: if_splits)
  then have "view_change_done env (handleViewChangeMsg env from r s st)"
    using assms(1) by (rule handleViewChangeMsg_leader[rotated])
  then show ?thesis using ViewChangeReqPacket
    by (simp add: handleMsg_def Let_def broadcastMsg_def view_change_done_def)
qed

lemma handleFutureBlock_leader:
  "m_leader_failed (handleFutureBlock env st) = m_leader_failed st"
  by (simp add: handleFutureBlock_def Let_def handlePrepareMsg_leader)

lemma collectGarbage_leader:
  "m_leader_failed (collectGarbage env st) = m_leader_failed st"
  by (simp add: collectGarbage_def Let_def)

lemma reHandlePrepareReq_leader:
  "m_leader_failed (reHandlePrepareReq env req st) = m_leader_failed st"
  by (simp add: reHandlePrepareReq_def Let_def handlePrepareMsg_leader broadcastMsg_def)

lemma shouldSeal_leader:
  "m_leader_failed (snd (shouldSeal env st)) = m_leader_failed st"
  by (simp add: shouldSeal_def Let_def reHandlePrepareReq_leader split: option.splits)

lemma generateSeal_leader:
  "m_leader_failed (snd (generateSeal env bi d st)) = m_leader_failed st"
  by (simp add: generateSeal_def broadcastPrepareReq_def Let_def broadcastMsg_def addRawPrepare_def)

lemma generateCommit_leader:
  "m_leader_failed (snd (generateCommit env bi d v st)) = m_leader_failed st"
  by (simp add: generateCommit_def Let_def addPrepareReq_def broadcastSignReq_def
      broadcastMsg_def addSignReq_def checkAndCommit_leader)

lemma resetConfig_leader:
  "m_leader_failed (resetConfig env st) = m_leader_failed st"
  by (simp add: resetConfig_def Let_def reconfigure_def split: option.splits)

lemma reportBlock_leader:
  "m_leader_failed (reportBlock env b st)
     = (m_leader_failed st \<and> \<not> m_consensus_block_number st \<le> number b)"
  by (simp add: reportBlock_def Let_def delCache_def resetConfig_leader delViewChange_def)

text \<open>
  C10. While \<open>m_leader_failed\<close> is set, \<open>getLeader\<close> fails and \<open>shouldSeal\<close> returns
  false without touching the state, whatever the node's index. The flag is set by
  \<open>changeViewForEmptyBlockWithLock\<close> and by a \<open>checkTimeout\<close> whose timeout has
  expired (unless the view change completes in the same call). Once set, no call into
  the engine clears it except \<open>reportBlock\<close> with a block at or above the consensus
  height and the two calls that reach \<open>checkAndChangeView\<close>, and those only by
  completing the view change; both do clear it.
\<close>

theorem leader_failed_blocks_sealing:
  "(m_leader_failed st \<longrightarrow>
      getLeader env st = (False, Invalid256 env) \<and> shouldSeal env st = (False, st))
   \<and> m_leader_failed (changeViewForEmptyBlockWithLock st)
   \<and> (timeout_interval env (m_view_timeout st) (m_change_cycle st)
         \<le> utcTime env - max (m_last_consensus_time st) (m_last_sign_time st)
       \<longrightarrow> m_leader_failed (checkTimeout env st) \<or> view_change_done env (checkTimeout env st))
   \<and> (m_leader_failed st \<and> \<not> m_leader_failed (step env c st) \<longrightarrow>
        (\<exists>b. c = ReportBlock b \<and> m_consensus_block_number st \<le> number b)
        \<or> ((c = CheckTimeout \<or> (\<exists>from r s. c = OnMsg from (ViewChangeReqPacket r s)))
           \<and> view_change_done env (step env c st)))
   \<and> (m_consensus_block_number st \<le> number b \<longrightarrow> \<not> m_leader_failed (reportBlock env b st))
   \<and> (quorum st - 1 \<le> size_u256 (map_at (m_to_view st) (m_recv_view_change_req st))
       \<longrightarrow> \<not> m_leader_failed (checkAndChangeView env st)
           \<and> view_change_done env (checkAndChangeView env st))"
proof -
  have a: "m_leader_failed st \<longrightarrow>
      getLeader env st = (False, Invalid256 env) \<and> shouldSeal env st = (False, st)"
    by (simp add: getLeader_def shouldSeal_def Let_def)
  have b: "m_leader_failed (changeViewForEmptyBlockWithLock st)"
    by (simp add: changeViewForEmptyBlockWithLock_def)
  have c: "timeout_interval env (m_view_timeout st) (m_change_cycle st)
         \<le> utcTime env - max (m_last_consensus_time st) (m_last_sign_time st)
       \<longrightarrow> m_leader_failed (checkTimeout env st) \<or> view_change_done env (checkTimeout env st)"
  proof (intro impI)
    assume f: "timeout_interval env (m_view_timeout st) (m_change_cycle st)
         \<le> utcTime env - max (m_last_consensus_time st) (m_last_sign_time st)"
    have "checkTimeout env st = checkTimeout env (st\<lparr>m_leader_failed := True\<rparr>)"
      using f by (simp add: checkTimeout_def Let_def)
    then show "m_leader_failed (checkTimeout env st) \<or> view_change_done env (checkTimeout env st)"
      using checkTimeout_leader[of "st\<lparr>m_leader_failed := True\<rparr>" env] by auto
  qed
  have d: "m_leader_failed st \<and> \<not> m_leader_failed (step env c st) \<longrightarrow>
        (\<exists>b. c = ReportBlock b \<and> m_consensus_block_number st \<le> number b)
        \<or> ((c = CheckTimeout \<or> (\<exists>from r s. c = OnMsg from (ViewChangeReqPacket r s)))
           \<and> view_change_done env (step env c st))"
  proof (cases c)
    case (OnMsg sender p)
    then show ?thesis using handleMsg_leader[of st env sender p] by auto
  next
    case CheckTimeout
    then show ?thesis using checkTimeout_leader[of st env] by auto
  next
    case HandleFutureBlock
    then show ?thesis by (simp add: handleFutureBlock_leader)
  next
    case CollectGarbage
    then show ?thesis by (simp add: collectGarbage_leader)
  next
    case ShouldSeal
    then show ?thesis by (simp add: shouldSeal_leader)
  next
    case (GenerateSeal bi d)
    then show ?thesis by (simp add: generateSeal_leader)
  next
    case (GenerateCommit bi d v)
    then show ?thesis by (simp add: generateCommit_leader)
  next
    case (ReportBlock b)
    then show ?thesis by (simp add: reportBlock_leader)
  next
    case ChangeViewForEmptyBlock
    then show ?thesis by (simp add: changeViewForEmptyBlockWithLock_def)
  qed
  have e: "m_consensus_block_number st \<le> number b \<longrightarrow> \<not> m_leader_failed (reportBlock env b st)"
    by (simp add: reportBlock_leader)
  have f: "quorum st - 1 \<le> size_u256 (map_at (m_to_view st) (m_recv_view_change_req st))
       \<longrightarrow> \<not> m_leader_failed (checkAndChangeView env st)
           \<and> view_change_done env (checkAndChangeView env st)"
    by (simp add: checkAndChangeView_def Let_def map_at_map_touch quorum_def view_change_done_def)
  show ?thesis using a b c d e f by blast
qed


theorem leader_failed_blocks_sealing_witness:
  "m_leader_failed (run (ex_round0_start @ ex_view_change_start) ex_state)
   \<and> shouldSeal ex_env (run (ex_round0_start @ ex_view_change_start) ex_state)
       = (False, run (ex_round0_start @ ex_view_change_start) ex_state)
   \<and> \<not> m_leader_failed (run (ex_round0_start @ ex_view_change) ex_state)
   \<and> view_change_done (ex_env\<lparr>utcTime := 3002\<rparr>) (run (ex_round0_start @ ex_view_change) ex_state)"
proof -
  have r: "run (ex_round0_start @ ex_view_change) ex_state
      = step (ex_env\<lparr>utcTime := 3002\<rparr>) (OnMsg 2 (ViewChangeReqPacket (ex_vote 2 9 1 900 0) True))
          (run (ex_round0_start @ ex_view_change_start) ex_state)"
    by (simp add: ex_view_change_def run_append ex_at_def del: step.simps)
  have a: "m_leader_failed (run (ex_round0_start @ ex_view_change_start) ex_state)"
    by (simp add: ex_round0_start_def ex_view_change_start_def ex_defs engine_defs word_cmp Let_def
        cong: let_weak_cong)
  have b: "\<not> m_leader_failed (run (ex_round0_start @ ex_view_change) ex_state)"
    by (simp add: ex_round0_start_def ex_view_change_def ex_view_change_start_def ex_defs
        engine_defs word_cmp Let_def cong: let_weak_cong)
  show ?thesis
    using a b
      leader_failed_blocks_sealing[of "run (ex_round0_start @ ex_view_change_start) ex_state"
        ex_env]
      leader_failed_blocks_sealing[of "run (ex_round0_start @ ex_view_change_start) ex_state"
        "ex_env\<lparr>utcTime := 3002\<rparr>" "OnMsg 2 (ViewChangeReqPacket (ex_vote 2 9 1 900 0) True)"]
    unfolding r by auto
qed

section \<open>The sealing gate\<close>

lemma checkAndSave_keeps: "e \<in> set (effects st) \<Longrightarrow> e \<in> set (effects (checkAndSave env st))"
  by (simp add: checkAndSave_cases Let_def)

lemma checkAndCommit_keeps: "e \<in> set (effects st) \<Longrightarrow> e \<in> set (effects (checkAndCommit env st))"
  by (simp add: checkAndCommit_def Let_def checkAndSave_keeps broadcastCommitReq_def
      broadcastMsg_def addCommitReq_def)

lemma acceptPrepare_keeps: "e \<in> set (effects st) \<Longrightarrow> e \<in> set (effects (acceptPrepare env req st))"
  by (simp add: acceptPrepare_def Let_def addRawPrepare_def addPrepareReq_def
      changeViewForEmptyBlockWithoutLock_def checkAndCommit_keeps broadcastSignReq_def
      broadcastMsg_def addSignReq_def split: option.splits)

lemma handlePrepareMsg_keeps:
  "e \<in> set (effects st) \<Longrightarrow> e \<in> set (effects (handlePrepareMsg env sender req self st))"
  by (simp add: handlePrepareMsg_def Let_def recvFutureBlock_def acceptPrepare_keeps)

lemma reHandlePrepareReq_broadcasts:
  "host_alive env \<Longrightarrow>
   BroadcastPrepareReq (new_prepare env (height c) (m_view st) (m_node_idx st) (block_hash c) (block c))
     \<in> set (effects (reHandlePrepareReq env c st))"
  by (simp add: reHandlePrepareReq_def Let_def broadcastMsg_def handlePrepareMsg_keeps)

text \<open>
  C7 (as amended). \<open>shouldSeal\<close> returns true, leaving the state untouched, if and
  only if there is no configuration error, the node is a miner, the leader-failed flag
  is not set, the chain tip is valid, the computed primary \<open>(view + chainTip) mod N\<close>
  is the node itself, and the consensus height differs from the height of the committed
  prepare. When all but the last hold and the committed prepare is at the consensus
  height, it returns false, and it posts the committed prepare again with
  \<open>reHandlePrepareReq\<close> unless the raw prepare already is at the consensus height.
  (\<open>getLeader\<close> divides by \<open>N\<close>, which the roster check keeps nonzero.)
\<close>

theorem shouldSeal_iff:
  assumes "m_node_num st \<noteq> 0"
  shows "(fst (shouldSeal env st) \<longleftrightarrow>
           \<not> m_cfg_err st \<and> m_account_type st = EN_ACCOUNT_TYPE_MINER env
           \<and> \<not> m_leader_failed st \<and> number (m_highest_block st) \<noteq> Invalid256 env
           \<and> (m_view st + number (m_highest_block st)) mod m_node_num st = m_node_idx st
           \<and> m_consensus_block_number st \<noteq> height (m_committed_prepare_cache st))
       \<and> (fst (shouldSeal env st) \<longrightarrow> snd (shouldSeal env st) = st)
       \<and> (\<not> m_cfg_err st \<and> m_account_type st = EN_ACCOUNT_TYPE_MINER env
           \<and> \<not> m_leader_failed st \<and> number (m_highest_block st) \<noteq> Invalid256 env
           \<and> (m_view st + number (m_highest_block st)) mod m_node_num st = m_node_idx st
           \<and> m_consensus_block_number st = height (m_committed_prepare_cache st)
          \<longrightarrow> \<not> fst (shouldSeal env st)
              \<and> snd (shouldSeal env st)
                  = (if m_consensus_block_number st \<noteq> height (m_raw_prepare_cache st)
                     then reHandlePrepareReq env (m_committed_prepare_cache st) st else st)
              \<and> (host_alive env \<and> m_consensus_block_number st \<noteq> height (m_raw_prepare_cache st)
                  \<longrightarrow> BroadcastPrepareReq
                        (new_prepare env (height (m_committed_prepare_cache st)) (m_view st)
                           (m_node_idx st) (block_hash (m_committed_prepare_cache st))
                           (block (m_committed_prepare_cache st)))
                        \<in> set (effects (snd (shouldSeal env st)))))"
  using reHandlePrepareReq_broadcasts[of env "m_committed_prepare_cache st" st]
  by (auto simp: shouldSeal_def getLeader_def Let_def split: option.splits)

theorem shouldSeal_iff_witness:
  "m_node_num ex_restarted \<noteq> 0
   \<and> \<not> fst (shouldSeal ex_env ex_restarted)
   \<and> BroadcastPrepareReq (new_prepare ex_env 13 0 0 77 [4, 5, 6])
        \<in> set (effects (snd (shouldSeal ex_env ex_restarted)))
   \<and> m_node_num (run (ex_round0_start @ [ex_at 1010 (ReportBlock ex_block12)]) ex_state) \<noteq> 0
   \<and> fst (shouldSeal ex_env (run (ex_round0_start @ [ex_at 1010 (ReportBlock ex_block12)]) ex_state))"
proof -
  have n: "m_node_num ex_restarted \<noteq> 0"
    by (simp add: ex_defs)
  have m: "m_node_num (run (ex_round0_start @ [ex_at 1010 (ReportBlock ex_block12)]) ex_state) \<noteq> 0"
    by (simp add: ex_round0_start_def ex_defs engine_defs word_cmp Let_def cong: let_weak_cong)
  have c: "m_committed_prepare_cache ex_restarted = ex_proposal 0 13 0 77 [4, 5, 6]"
    "m_view ex_restarted = 0" "m_node_idx ex_restarted = 0"
    by (simp_all add: ex_defs)
  have p: "\<not> m_cfg_err ex_restarted \<and> m_account_type ex_restarted = EN_ACCOUNT_TYPE_MINER ex_env
           \<and> \<not> m_leader_failed ex_restarted \<and> number (m_highest_block ex_restarted) \<noteq> Invalid256 ex_env
           \<and> (m_view ex_restarted + number (m_highest_block ex_restarted)) mod m_node_num ex_restarted
               = m_node_idx ex_restarted
           \<and> m_consensus_block_number ex_restarted = height (m_committed_prepare_cache ex_restarted)"
    by (simp add: ex_defs Let_def)
  have h: "host_alive ex_env
           \<and> m_consensus_block_number ex_restarted \<noteq> height (m_raw_prepare_cache ex_restarted)"
    by (simp add: ex_defs Let_def)
  have q: "height (ex_proposal 0 13 0 77 [4, 5, 6]) = 13"
    "block_hash (ex_proposal 0 13 0 77 [4, 5, 6]) = 77"
    "block (ex_proposal 0 13 0 77 [4, 5, 6]) = [4, 5, 6]"
    by (simp_all add: ex_proposal_def ex_vote_def Let_def)
  have T: "\<not> fst (shouldSeal ex_env ex_restarted)
     \<and> BroadcastPrepareReq
         (new_prepare ex_env (height (m_committed_prepare_cache ex_restarted)) (m_view ex_restarted)
            (m_node_idx ex_restarted) (block_hash (m_committed_prepare_cache ex_restarted))
            (block (m_committed_prepare_cache ex_restarted)))
         \<in> set (effects (snd (shouldSeal ex_env ex_restarted)))"
    using shouldSeal_iff[OF n, of ex_env] p h by blast
  have t: "fst (shouldSeal ex_env (run (ex_round0_start @ [ex_at 1010 (ReportBlock ex_block12)]) ex_state))"
    unfolding shouldSeal_iff[OF m, THEN conjunct1]
    by (simp add: ex_round0_start_def ex_defs engine_defs word_cmp Let_def cong: let_weak_cong)
  show ?thesis
    using n m t T unfolding c q by blast
qed

text \<open>
  C7 as stated fails. Miner 0 is a miner in the roster, leads view 0 at chain tip 12,
  and its committed prepare (height 10) is below the consensus height 13; yet after its
  timeout has fired \<open>shouldSeal\<close> returns false, because the leader-failed flag is set.
\<close>

theorem leader_failed_not_sealing:
  "m_account_type
      (run (ex_round0_start @ [ex_at 1010 (ReportBlock ex_block12), ex_at 5000 CheckTimeout]) ex_state)
     = EN_ACCOUNT_TYPE_MINER ex_env
   \<and> \<not> m_cfg_err
      (run (ex_round0_start @ [ex_at 1010 (ReportBlock ex_block12), ex_at 5000 CheckTimeout]) ex_state)
   \<and> (m_view
      (run (ex_round0_start @ [ex_at 1010 (ReportBlock ex_block12), ex_at 5000 CheckTimeout]) ex_state)
      + number (m_highest_block
      (run (ex_round0_start @ [ex_at 1010 (ReportBlock ex_block12), ex_at 5000 CheckTimeout]) ex_state)))
      mod m_node_num
      (run (ex_round0_start @ [ex_at 1010 (ReportBlock ex_block12), ex_at 5000 CheckTimeout]) ex_state)
     = m_node_idx
      (run (ex_round0_start @ [ex_at 1010 (ReportBlock ex_block12), ex_at 5000 CheckTimeout]) ex_state)
   \<and> height (m_committed_prepare_cache
      (run (ex_round0_start @ [ex_at 1010 (ReportBlock ex_block12), ex_at 5000 CheckTimeout]) ex_state))
     < m_consensus_block_number
      (run (ex_round0_start @ [ex_at 1010 (ReportBlock ex_block12), ex_at 5000 CheckTimeout]) ex_state)
   \<and> \<not> fst (shouldSeal (ex_env\<lparr>utcTime := 5001\<rparr>)
      (run (ex_round0_start @ [ex_at 1010 (ReportBlock ex_block12), ex_at 5000 CheckTimeout]) ex_state))"
  by (simp add: ex_round0_start_def ex_defs engine_defs word_cmp Let_def cong: let_weak_cong)


section \<open>Emission and the flags of \<open>m_commitMap\<close>\<close>





lemma quiet_trans: "quiet a b \<Longrightarrow> quiet b c \<Longrightarrow> quiet a c"
  by (simp add: quiet_def)





























end
